theory Spec2Isabelle
  imports Complex_Main
begin

section \<open>JavaScript values, as far as \<^verbatim>\<open>worker.js\<close> uses them\<close>

text \<open>
  \<^verbatim>\<open>src/worker.js\<close> holds two variants of one Cloudflare Worker. The first
  (lines 1-126) resolves the image size with \<^verbatim>\<open>pickDims\<close>; the second (lines 127-247)
  does it inline in \<^verbatim>\<open>fetch\<close>, through \<^verbatim>\<open>parseDim\<close>. Both are embedded below.

  A JavaScript number is a binary64 value. It is modelled as \<open>NaN\<close>, the two
  infinities, or a finite value carried as an exact rational. The two zeros are
  one value \<open>Fin 0\<close>: the program never divides by a negative zero (its divisors
  are \<^verbatim>\<open>b > 0\<close>, a ratio that is a quotient or a product of positive numbers, and
  the constant 8), and every other operation it uses treats both zeros alike.
\<close>

datatype jsnum = NaN | PInf | NInf | Fin rat

text \<open>
  The values a parsed JSON body and its fields can take, and \<^verbatim>\<open>undefined\<close> for
  an absent field. \<open>JObj\<close> carries the own properties of a parsed object
  (\<^verbatim>\<open>JSON.parse\<close> has already resolved repeated keys).
\<close>

datatype jsval =
    JUndefined
  | JNull
  | JBool bool
  | JNum jsnum
  | JStr string
  | JArr "jsval list"
  | JObj "(string \<times> jsval) list"

text \<open>
  The one exception the sizing code can raise: \<^verbatim>\<open>Number(v)\<close> throws a
  \<^verbatim>\<open>TypeError\<close> when \<open>v\<close> is an object that cannot be converted to a primitive.
  A function that can throw returns \<open>Inl\<close> of the error, or \<open>Inr\<close> of its value;
  \<open>and_then\<close> runs the rest of the code on the value and passes the error on.
\<close>

datatype js_error = TypeError

definition and_then :: "js_error + 'a \<Rightarrow> ('a \<Rightarrow> js_error + 'b) \<Rightarrow> js_error + 'b" where
  "and_then m f = (case m of Inl e \<Rightarrow> Inl e | Inr x \<Rightarrow> f x)"

text \<open>
  What the language does and the file does not define is a parameter of the model:
  \<^item> \<open>StringToNumber\<close>: \<^verbatim>\<open>Number(s)\<close> on a string;
  \<^item> \<open>ObjectToNumber\<close>: \<^verbatim>\<open>Number(v)\<close> on an array or an object (through
    \<^verbatim>\<open>valueOf\<close> and \<^verbatim>\<open>toString\<close>). It yields a number, or throws: a parsed object
    whose own \<^verbatim>\<open>toString\<close> property shadows the built-in method, such as
    \<^verbatim>\<open>{"toString": 1}\<close>, has no callable conversion left;
  \<^item> \<open>round64\<close>: the binary64 rounding of the exact result of \<^verbatim>\<open>/\<close> and \<^verbatim>\<open>*\<close>
    (a finite value, or an infinity on overflow);
  \<^item> \<open>NumberToString\<close>: a number inside a template literal.
  The theorems hold for every such environment, under the hypotheses they name.
\<close>

record js_env =
  StringToNumber :: "string \<Rightarrow> jsnum"
  ObjectToNumber :: "jsval \<Rightarrow> js_error + jsnum"
  round64 :: "rat \<Rightarrow> jsnum"
  NumberToString :: "jsnum \<Rightarrow> string"

subsection \<open>Numbers\<close>

definition isFinite :: "jsnum \<Rightarrow> bool" where
  "isFinite n = (case n of Fin _ \<Rightarrow> True | _ \<Rightarrow> False)"

definition isInteger :: "jsnum \<Rightarrow> bool" where
  "isInteger n = (case n of Fin q \<Rightarrow> q = of_int \<lfloor>q\<rfloor> | _ \<Rightarrow> False)"

text \<open>\<^verbatim>\<open>x < y\<close> on numbers: false as soon as one side is \<open>NaN\<close>.\<close>

fun js_lt :: "jsnum \<Rightarrow> jsnum \<Rightarrow> bool" where
  "js_lt NaN _ = False"
| "js_lt _ NaN = False"
| "js_lt (Fin a) (Fin b) = (a < b)"
| "js_lt NInf NInf = False"
| "js_lt NInf _ = True"
| "js_lt _ NInf = False"
| "js_lt PInf _ = False"
| "js_lt _ PInf = True"

definition js_gt :: "jsnum \<Rightarrow> jsnum \<Rightarrow> bool" where
  "js_gt x y = js_lt y x"

definition js_le :: "jsnum \<Rightarrow> jsnum \<Rightarrow> bool" where
  "js_le x y = (x \<noteq> NaN \<and> y \<noteq> NaN \<and> \<not> js_lt y x)"

definition js_ge :: "jsnum \<Rightarrow> jsnum \<Rightarrow> bool" where
  "js_ge x y = js_le y x"

text \<open>\<^verbatim>\<open>Math.max\<close> and \<^verbatim>\<open>Math.min\<close> of two numbers: \<open>NaN\<close> if either is.\<close>

definition Math_max :: "jsnum \<Rightarrow> jsnum \<Rightarrow> jsnum" where
  "Math_max x y = (if x = NaN \<or> y = NaN then NaN else if js_lt x y then y else x)"

definition Math_min :: "jsnum \<Rightarrow> jsnum \<Rightarrow> jsnum" where
  "Math_min x y = (if x = NaN \<or> y = NaN then NaN else if js_lt y x then y else x)"

text \<open>
  \<^verbatim>\<open>Math.round\<close>: the nearest integer, a tie going up. On a binary64 value the
  result \<open>\<lfloor>q + 1/2\<rfloor>\<close> is itself a binary64 value, so no rounding follows.
\<close>

definition Math_round :: "jsnum \<Rightarrow> jsnum" where
  "Math_round n = (case n of Fin q \<Rightarrow> Fin (of_int \<lfloor>q + 1 / 2\<rfloor>) | _ \<Rightarrow> n)"

text \<open>\<^verbatim>\<open>x / y\<close> and \<^verbatim>\<open>x * y\<close> on numbers, with the special values of IEEE 754.\<close>

fun js_div :: "js_env \<Rightarrow> jsnum \<Rightarrow> jsnum \<Rightarrow> jsnum" where
  "js_div E NaN _ = NaN"
| "js_div E _ NaN = NaN"
| "js_div E (Fin a) (Fin b) =
     (if b = 0 then (if a = 0 then NaN else if 0 < a then PInf else NInf)
      else round64 E (a / b))"
| "js_div E (Fin a) _ = Fin 0"
| "js_div E PInf (Fin b) = (if 0 \<le> b then PInf else NInf)"
| "js_div E NInf (Fin b) = (if 0 \<le> b then NInf else PInf)"
| "js_div E _ _ = NaN"

fun js_mul :: "js_env \<Rightarrow> jsnum \<Rightarrow> jsnum \<Rightarrow> jsnum" where
  "js_mul E NaN _ = NaN"
| "js_mul E _ NaN = NaN"
| "js_mul E (Fin a) (Fin b) = round64 E (a * b)"
| "js_mul E (Fin a) PInf = (if a = 0 then NaN else if 0 < a then PInf else NInf)"
| "js_mul E (Fin a) NInf = (if a = 0 then NaN else if 0 < a then NInf else PInf)"
| "js_mul E PInf (Fin b) = (if b = 0 then NaN else if 0 < b then PInf else NInf)"
| "js_mul E NInf (Fin b) = (if b = 0 then NaN else if 0 < b then NInf else PInf)"
| "js_mul E PInf PInf = PInf"
| "js_mul E NInf NInf = PInf"
| "js_mul E _ _ = NInf"

subsection \<open>Coercions\<close>

text \<open>
  \<^verbatim>\<open>Number(v)\<close>, which is also what \<^verbatim>\<open>/\<close>, \<^verbatim>\<open>*\<close> and \<^verbatim>\<open>Math.max\<close> apply to an operand.
  Only the conversion of an array or an object can throw.
\<close>

fun ToNumber :: "js_env \<Rightarrow> jsval \<Rightarrow> js_error + jsnum" where
  "ToNumber E JUndefined = Inr NaN"
| "ToNumber E JNull = Inr (Fin 0)"
| "ToNumber E (JBool b) = Inr (if b then Fin 1 else Fin 0)"
| "ToNumber E (JNum n) = Inr n"
| "ToNumber E (JStr s) = Inr (StringToNumber E s)"
| "ToNumber E v = ObjectToNumber E v"

text \<open>Truthiness, as \<^verbatim>\<open>!v\<close>, \<^verbatim>\<open>v || d\<close>, \<^verbatim>\<open>v && u\<close> and \<^verbatim>\<open>if (v)\<close> test it.\<close>

definition num_truthy :: "jsnum \<Rightarrow> bool" where
  "num_truthy n = (n \<noteq> NaN \<and> n \<noteq> Fin 0)"

fun truthy :: "jsval \<Rightarrow> bool" where
  "truthy JUndefined = False"
| "truthy JNull = False"
| "truthy (JBool b) = b"
| "truthy (JNum n) = num_truthy n"
| "truthy (JStr s) = (s \<noteq> [])"
| "truthy _ = True"

definition js_or :: "jsval \<Rightarrow> jsval \<Rightarrow> jsval" where
  "js_or v d = (if truthy v then v else d)"

text \<open>\<^verbatim>\<open>body.k\<close> and \<^verbatim>\<open>body?.k\<close>: only a parsed object has the fields the worker reads.\<close>

fun get_field :: "jsval \<Rightarrow> string \<Rightarrow> jsval" where
  "get_field (JObj fs) k = (case map_of fs k of Some v \<Rightarrow> v | None \<Rightarrow> JUndefined)"
| "get_field _ k = JUndefined"

subsection \<open>Strings\<close>

text \<open>
  A string is a list of code units; \<open>char\<close> covers the code units below 256.
  \<^verbatim>\<open>trim\<close> removes the white space and line terminators among them from both ends.
\<close>

definition isWhiteSpace :: "char \<Rightarrow> bool" where
  "isWhiteSpace c = (of_char c \<in> {9, 10, 11, 12, 13, 32, 160 :: nat})"

definition trim :: "string \<Rightarrow> string" where
  "trim s = rev (dropWhile isWhiteSpace (rev (dropWhile isWhiteSpace s)))"

definition toLowerCase_char :: "char \<Rightarrow> char" where
  "toLowerCase_char c =
     (let n = (of_char c :: nat) in
      if (65 \<le> n \<and> n \<le> 90) \<or> (192 \<le> n \<and> n \<le> 222 \<and> n \<noteq> 215)
      then char_of (n + 32) else c)"

definition toLowerCase :: "string \<Rightarrow> string" where
  "toLowerCase s = map toLowerCase_char s"

fun starts_with :: "string \<Rightarrow> string \<Rightarrow> bool" where
  "starts_with s [] = True"
| "starts_with [] (c # cs) = False"
| "starts_with (x # xs) (c # cs) = (x = c \<and> starts_with xs cs)"

text \<open>\<^verbatim>\<open>s.includes(t)\<close>: \<open>t\<close> occurs in \<open>s\<close> as a contiguous substring.\<close>

fun includes_str :: "string \<Rightarrow> string \<Rightarrow> bool" where
  "includes_str [] t = (t = [])"
| "includes_str (x # xs) t = (starts_with (x # xs) t \<or> includes_str xs t)"

section \<open>Sizing: the functions of both variants\<close>

definition DEFAULT_W :: jsnum where "DEFAULT_W = Fin 1024"
definition DEFAULT_H :: jsnum where "DEFAULT_H = Fin 1024"
definition MIN_DIM :: jsnum where "MIN_DIM = Fin 256"
definition MAX_DIM :: jsnum where "MAX_DIM = Fin 2048"

text \<open>
  \<^verbatim>\<open>function clamp(n, lo, hi) { return Math.min(hi, Math.max(lo, n)); }\<close>
  The first variant passes \<^verbatim>\<open>w || DEFAULT_W\<close>, which can be any value:
  \<^verbatim>\<open>Math.max\<close> converts it to a number.
\<close>

definition clamp :: "js_env \<Rightarrow> jsval \<Rightarrow> jsnum \<Rightarrow> jsnum \<Rightarrow> js_error + jsnum" where
  "clamp E n lo hi = and_then (ToNumber E n) (\<lambda>x. Inr (Math_min hi (Math_max lo x)))"

text \<open>
  \<^verbatim>\<open>s.split(/[:/]/)\<close>: the pieces of \<open>s\<close> between the occurrences of \<^verbatim>\<open>:\<close> and \<^verbatim>\<open>/\<close>,
  in order; one piece more than there are delimiters.
\<close>

definition isDelim :: "char \<Rightarrow> bool" where
  "isDelim c = (c = CHR '':'' \<or> c = CHR ''/'')"

fun split_delims :: "string \<Rightarrow> string list" where
  "split_delims [] = [[]]"
| "split_delims (c # cs) =
     (if isDelim c then [] # split_delims cs
      else (c # hd (split_delims cs)) # tl (split_delims cs))"

definition pos_finite :: "jsnum \<Rightarrow> bool" where
  "pos_finite n = (isFinite n \<and> js_gt n (Fin 0))"

text \<open>
  \<^verbatim>\<open>parseAspectRatio\<close> (lines 10-22 and 237-247; the two copies differ only in
  layout). The result is a number or \<^verbatim>\<open>null\<close>, here \<open>None\<close>. The pattern
  \<^verbatim>\<open>[a, b]\<close> takes the first two pieces; a missing piece would be \<^verbatim>\<open>undefined\<close>,
  which is not finite.
\<close>

definition parseAspectRatio :: "js_env \<Rightarrow> jsval \<Rightarrow> jsnum option" where
  "parseAspectRatio E ar =
     (case ar of
        JStr str \<Rightarrow>
          (let s = trim str in
           if s = [] then None
           else if CHR '':'' \<in> set s \<or> CHR ''/'' \<in> set s then
             (case map (StringToNumber E) (split_delims s) of
                a # b # _ \<Rightarrow>
                  (if isFinite a \<and> isFinite b \<and> js_gt a (Fin 0) \<and> js_gt b (Fin 0)
                   then Some (js_div E a b) else None)
              | _ \<Rightarrow> None)
           else
             (let n = StringToNumber E s in
              if isFinite n \<and> js_gt n (Fin 0) then Some n else None))
      | _ \<Rightarrow> None)"

text \<open>\<^verbatim>\<open>r || d\<close> and \<^verbatim>\<open>r ?? d\<close> on a number-or-null \<open>r\<close>, and its truthiness.\<close>

definition or_default :: "jsnum option \<Rightarrow> jsnum \<Rightarrow> jsnum" where
  "or_default r d = (case r of Some x \<Rightarrow> (if num_truthy x then x else d) | None \<Rightarrow> d)"

definition nullish :: "jsnum option \<Rightarrow> jsnum \<Rightarrow> jsnum" where
  "nullish r d = (case r of Some x \<Rightarrow> x | None \<Rightarrow> d)"

definition opt_truthy :: "jsnum option \<Rightarrow> bool" where
  "opt_truthy r = (case r of Some x \<Rightarrow> num_truthy x | None \<Rightarrow> False)"

definition opt_number :: "jsnum option \<Rightarrow> jsnum" where
  "opt_number r = (case r of Some x \<Rightarrow> x | None \<Rightarrow> Fin 0)"

subsection \<open>First variant: \<^verbatim>\<open>pickDims\<close> (lines 24-57)\<close>

record dim_args =
  width :: jsval
  height :: jsval
  aspectRatio :: jsval
  longEdge :: jsval

text \<open>
  The parameter default \<^verbatim>\<open>longEdge = 1024\<close> applies to \<^verbatim>\<open>undefined\<close> only. The
  variables \<^verbatim>\<open>w\<close> and \<^verbatim>\<open>h\<close> start as numbers; \<^verbatim>\<open>w = longEdge\<close> can then store any
  value. The result \<^verbatim>\<open>{ width, height }\<close> is the pair \<open>(width, height)\<close>. The
  conversions follow the order of the code: \<^verbatim>\<open>Number(width)\<close>, \<^verbatim>\<open>Number(height)\<close>,
  then \<^verbatim>\<open>longEdge / ar\<close> or \<^verbatim>\<open>longEdge * ar\<close>, then the two calls of \<^verbatim>\<open>clamp\<close>; the
  first that throws ends the function.
\<close>

definition pickDims :: "js_env \<Rightarrow> dim_args \<Rightarrow> js_error + jsnum \<times> jsnum" where
  "pickDims E args =
     (let le = (if longEdge args = JUndefined then JNum (Fin 1024) else longEdge args) in
      and_then (ToNumber E (width args)) (\<lambda>w.
      and_then (ToNumber E (height args)) (\<lambda>h.
        if isInteger w \<and> isInteger h \<and> js_gt w (Fin 0) \<and> js_gt h (Fin 0) then
          and_then (clamp E (JNum w) MIN_DIM MAX_DIM) (\<lambda>cw.
          and_then (clamp E (JNum h) MIN_DIM MAX_DIM) (\<lambda>ch.
            Inr (cw, ch)))
        else
          (let ar = or_default (parseAspectRatio E (aspectRatio args)) (Fin 1) in
           and_then
             (if isInteger w \<and> js_gt w (Fin 0) then
                Inr (JNum w, JNum (Math_round (js_div E w ar)))
              else if isInteger h \<and> js_gt h (Fin 0) then
                Inr (JNum (Math_round (js_mul E h ar)), JNum h)
              else if num_truthy ar then
                (if js_ge ar (Fin 1) then
                   and_then (ToNumber E le) (\<lambda>l.
                     Inr (le, JNum (Math_round (js_div E l ar))))
                 else
                   and_then (ToNumber E le) (\<lambda>l.
                     Inr (JNum (Math_round (js_mul E l ar)), le)))
              else Inr (JNum w, JNum h))
             (\<lambda>wh.
                and_then (clamp E (js_or (fst wh) (JNum DEFAULT_W)) MIN_DIM MAX_DIM) (\<lambda>cw.
                and_then (clamp E (js_or (snd wh) (JNum DEFAULT_H)) MIN_DIM MAX_DIM) (\<lambda>ch.
                  Inr (cw, ch))))))))"

subsection \<open>Second variant: \<^verbatim>\<open>parseDim\<close> (lines 227-234) and the block of lines 165-184\<close>

text \<open>
  \<^verbatim>\<open>parseDim\<close> is only called with one argument, so \<^verbatim>\<open>min\<close>, \<^verbatim>\<open>max\<close> and \<^verbatim>\<open>align\<close>
  are their defaults 256, 2048 and 8.
\<close>

definition parseDim :: "js_env \<Rightarrow> jsval \<Rightarrow> js_error + jsnum option" where
  "parseDim E v =
     (if v = JUndefined \<or> v = JNull then Inr None
      else
        and_then (case v of JStr s \<Rightarrow> Inr (StringToNumber E (trim s)) | _ \<Rightarrow> ToNumber E v)
          (\<lambda>n.
             if \<not> isFinite n \<or> js_le n (Fin 0) then Inr None
             else
               (let rounded = Math_round n;
                    clamped = Math_min (Fin 2048) (Math_max (Fin 256) rounded)
                in Inr (Some (Math_max (Fin 8)
                     (js_mul E (Math_round (js_div E clamped (Fin 8))) (Fin 8)))))))"

text \<open>
  The dimension block of the second \<^verbatim>\<open>fetch\<close>, from the parsed body to the
  \<^verbatim>\<open>w\<close> and \<^verbatim>\<open>h\<close> handed to the backend. The three fields are converted first
  (lines 165-168), \<^verbatim>\<open>longEdge\<close> too when both dimensions are given; a conversion
  that throws ends the block.
\<close>

definition resolveDims2 :: "js_env \<Rightarrow> jsval \<Rightarrow> js_error + jsnum \<times> jsnum" where
  "resolveDims2 E parsed =
     and_then (parseDim E (get_field parsed ''width'')) (\<lambda>w.
     and_then (parseDim E (get_field parsed ''height'')) (\<lambda>h.
     and_then (parseDim E (get_field parsed ''longEdge'')) (\<lambda>lp.
       (let ar = nullish (parseAspectRatio E (get_field parsed ''aspectRatio'')) (Fin 1);
            le = nullish lp (Fin 1024)
        in and_then
             (if opt_truthy w \<and> opt_truthy h then Inr (w, h)
              else if opt_truthy w \<and> \<not> opt_truthy h then
                and_then (parseDim E (JNum (Math_round (js_div E (opt_number w) ar))))
                  (\<lambda>h'. Inr (w, h'))
              else if \<not> opt_truthy w \<and> opt_truthy h then
                and_then (parseDim E (JNum (Math_round (js_mul E (opt_number h) ar))))
                  (\<lambda>w'. Inr (w', h))
              else if js_ge ar (Fin 1) then
                and_then (parseDim E (JNum le)) (\<lambda>w'.
                and_then (parseDim E (JNum (Math_round (js_div E le ar)))) (\<lambda>h'.
                  Inr (w', h')))
              else
                and_then (parseDim E (JNum le)) (\<lambda>h'.
                and_then (parseDim E (JNum (Math_round (js_mul E le ar)))) (\<lambda>w'.
                  Inr (w', h'))))
             (\<lambda>wh. Inr (or_default (fst wh) (Fin 1024), or_default (snd wh) (Fin 1024)))))))"

section \<open>The request handlers\<close>

text \<open>
  What \<^verbatim>\<open>fetch\<close> reads of a request: the method, the path of the URL, the two
  headers it asks for (\<open>None\<close> when \<^verbatim>\<open>headers.get\<close> gives \<^verbatim>\<open>null\<close>) and the outcome
  of \<^verbatim>\<open>request.json()\<close> (\<open>None\<close> when it throws).
\<close>

record request =
  req_method :: string
  req_pathname :: string
  req_authorization :: "string option"
  req_content_type :: "string option"
  req_json :: "jsval option"

type_synonym bytes = "nat list"
type_synonym header_list = "(string \<times> string) list"

text \<open>
  A response body is absent, the JSON text of \<^verbatim>\<open>{ error: msg }\<close>, or the bytes
  the backend produced. Header names are kept in lower case, as \<^verbatim>\<open>Headers\<close> does.
\<close>

datatype resp_body = NoBody | JsonError string | ImageBytes bytes

record response =
  status :: nat
  headers :: header_list
  body :: resp_body

fun set_header :: "string \<Rightarrow> string \<Rightarrow> header_list \<Rightarrow> header_list" where
  "set_header k v [] = [(k, v)]"
| "set_header k v ((k', v') # hs) =
     (if k' = k then (k, v) # hs else (k', v') # set_header k v hs)"

definition make_headers :: "header_list \<Rightarrow> header_list" where
  "make_headers kvs = foldl (\<lambda>hs kv. set_header (toLowerCase (fst kv)) (snd kv) hs) [] kvs"

definition get_header :: "response \<Rightarrow> string \<Rightarrow> string option" where
  "get_header r k = map_of (headers r) (toLowerCase k)"

text \<open>\<^verbatim>\<open>json(data, status, extraHeaders)\<close> and \<^verbatim>\<open>cors(response)\<close> (lines 209-224).\<close>

definition json :: "string \<Rightarrow> nat \<Rightarrow> header_list \<Rightarrow> response" where
  "json msg st extraHeaders =
     \<lparr>status = st,
      headers = make_headers ((''Content-Type'', ''application/json'') # extraHeaders),
      body = JsonError msg\<rparr>"

definition cors :: "response \<Rightarrow> response" where
  "cors r =
     \<lparr>status = status r,
      headers =
        set_header ''access-control-max-age'' ''600''
          (set_header ''access-control-allow-headers'' ''Authorization, Content-Type''
            (set_header ''access-control-allow-methods'' ''POST, OPTIONS''
              (set_header ''access-control-allow-origin'' ''*'' (headers r)))),
      body = body r\<rparr>"

text \<open>
  The bindings of the deployment: the secret and the image backend. A call of
  \<^verbatim>\<open>env.AI.run\<close> yields the image bytes, or \<open>None\<close> when it throws. The handlers
  return the response together with the backend calls they made.
\<close>

record ai_call =
  call_model :: string
  call_prompt :: string
  call_width :: jsnum
  call_height :: jsnum

record worker_env =
  API_KEY :: string
  AI_run :: "ai_call \<Rightarrow> bytes option"

text \<open>
  The first variant keeps \<^verbatim>\<open>parseBearer\<close>, \<^verbatim>\<open>safeEqual\<close> and \<^verbatim>\<open>SECURITY_HEADERS\<close>
  from code that is not in the file (line 1); they are parameters here.
  \<^verbatim>\<open>parseBearer\<close> yields the token or nothing.
\<close>

record helpers =
  parseBearer :: "string \<Rightarrow> string option"
  safeEqual :: "string \<Rightarrow> string \<Rightarrow> bool"
  SECURITY_HEADERS :: header_list

definition MODEL_WHITELIST :: "string list" where
  "MODEL_WHITELIST =
     [''@cf/stabilityai/stable-diffusion-xl-base-1.0'',
      ''@cf/blackforestlabs/ux-1-schnell'',
      ''@cf/bytedance/stable-diffusion-xl-lightning'',
      ''@cf/lykon/dreamshaper-8-lcm'',
      ''@cf/runwayml/stable-diffusion-v1-5-img2img'',
      ''@cf/runwayml/stable-diffusion-v1-5-inpainting'']"

definition DEFAULT_MODEL :: string where
  "DEFAULT_MODEL = ''@cf/stabilityai/stable-diffusion-xl-base-1.0''"

text \<open>\<^verbatim>\<open>MODEL_WHITELIST.has(model) ? model : default\<close> (lines 97-99).\<close>

definition selectModel1 :: "jsval \<Rightarrow> string" where
  "selectModel1 m =
     (case m of
        JStr s \<Rightarrow> (if s \<in> set MODEL_WHITELIST then s else DEFAULT_MODEL)
      | _ \<Rightarrow> DEFAULT_MODEL)"

text \<open>\<^verbatim>\<open>typeof body?.model === "string" ? body.model : default\<close> (lines 160-162).\<close>

definition selectModel2 :: "jsval \<Rightarrow> string" where
  "selectModel2 m = (case m of JStr s \<Rightarrow> s | _ \<Rightarrow> DEFAULT_MODEL)"

definition header_or_empty :: "string option \<Rightarrow> string" where
  "header_or_empty h = (case h of Some s \<Rightarrow> s | None \<Rightarrow> [])"

text \<open>The double quote, for the two header values that contain it.\<close>

definition dquote :: char where
  "dquote = CHR 0x22"

text \<open>\<^verbatim>\<open>`inline; filename="image-${w}x${h}.png"`\<close>\<close>

definition filename :: "js_env \<Rightarrow> jsnum \<Rightarrow> jsnum \<Rightarrow> string" where
  "filename E w h =
     ''inline; filename='' @ [dquote] @ ''image-'' @ NumberToString E w @ ''x''
       @ NumberToString E h @ ''.png'' @ [dquote]"

subsection \<open>First variant (lines 59-126)\<close>

text \<open>
  The negation of \<^verbatim>\<open>!token || !(await safeEqual(token, env.API_KEY))\<close>, for the
  token \<^verbatim>\<open>parseBearer(authHeader)\<close>: an absent or empty token is falsy.
\<close>

definition authorized1 :: "helpers \<Rightarrow> worker_env \<Rightarrow> string \<Rightarrow> bool" where
  "authorized1 H env authHeader =
     (case parseBearer H authHeader of
        None \<Rightarrow> False
      | Some token \<Rightarrow> token \<noteq> [] \<and> safeEqual H token (API_KEY env))"

text \<open>The tail of the handler: the backend call and the two responses it can end in.\<close>

definition generate1 :: "js_env \<Rightarrow> helpers \<Rightarrow> worker_env \<Rightarrow> ai_call \<Rightarrow> response \<times> ai_call list" where
  "generate1 E H env c =
     (case AI_run env c of
        Some result \<Rightarrow>
          (cors \<lparr>status = 200,
                 headers = make_headers
                   ([(''Content-Type'', ''image/png''),
                     (''Cache-Control'', ''no-store''),
                     (''Content-Disposition'', filename E (call_width c) (call_height c))]
                    @ SECURITY_HEADERS H),
                 body = ImageBytes result\<rparr>, [c])
      | None \<Rightarrow> (cors (json ''Failed to generate image'' 500 []), [c]))"

text \<open>The argument \<^verbatim>\<open>{ width, height, aspectRatio, longEdge }\<close> of line 102.\<close>

definition sizing_args :: "jsval \<Rightarrow> dim_args" where
  "sizing_args b =
     \<lparr>width = get_field b ''width'', height = get_field b ''height'',
      aspectRatio = get_field b ''aspectRatio'', longEdge = get_field b ''longEdge''\<rparr>"

text \<open>
  \<^verbatim>\<open>pickDims\<close> is called at line 102, before the \<^verbatim>\<open>try\<close> of line 105: when it
  throws, nothing catches the exception and the handler returns no response
  (\<open>Inl\<close>).
\<close>

definition fetch1 ::
  "js_env \<Rightarrow> helpers \<Rightarrow> worker_env \<Rightarrow> request \<Rightarrow> js_error + response \<times> ai_call list" where
  "fetch1 E H env req =
     (if req_method req = ''OPTIONS'' then
        Inr (cors \<lparr>status = 204, headers = [], body = NoBody\<rparr>, [])
      else if req_pathname req \<noteq> ''/'' \<or> req_method req \<noteq> ''POST'' then
        Inr (cors (json ''Method not allowed'' 405 [(''Allow'', ''POST, OPTIONS'')]), [])
      else
        (if \<not> authorized1 H env (header_or_empty (req_authorization req)) then
           Inr (cors (json ''Unauthorized'' 401
              [(''WWW-Authenticate'', ''Bearer realm='' @ [dquote] @ ''service'' @ [dquote])]), [])
         else if \<not> includes_str (toLowerCase (header_or_empty (req_content_type req)))
                    ''application/json'' then
           Inr (cors (json ''Unsupported Media Type, expected application/json'' 415 []), [])
         else
           (case req_json req of
              None \<Rightarrow> Inr (cors (json ''Invalid JSON body'' 400 []), [])
            | Some parsed \<Rightarrow>
                (let b = js_or parsed (JObj []) in
                 case get_field b ''prompt'' of
                   JStr p \<Rightarrow>
                     (let prompt = trim p in
                      if prompt = [] then
                        Inr (cors (json ''Prompt is required (non-empty string)'' 400 []), [])
                      else if 800 < length prompt then
                        Inr (cors (json ''Prompt too long (max 800 chars)'' 413 []), [])
                      else
                        (let selectedModel = selectModel1 (get_field b ''model'') in
                         and_then (pickDims E (sizing_args b)) (\<lambda>dims.
                           Inr (generate1 E H env
                              \<lparr>call_model = selectedModel, call_prompt = prompt,
                               call_width = fst dims, call_height = snd dims\<rparr>))))
                 | _ \<Rightarrow> Inr (cors (json ''Prompt is required (non-empty string)'' 400 []), [])))))"

subsection \<open>Second variant (lines 127-205)\<close>

text \<open>
  Everything from the \<^verbatim>\<open>try\<close> of line 148 on: whatever throws inside it
  (\<^verbatim>\<open>request.json()\<close>, \<^verbatim>\<open>.trim()\<close> on a prompt that is not a string, the
  conversion of a sizing field in \<^verbatim>\<open>parseDim\<close>, \<^verbatim>\<open>env.AI.run\<close>) ends in the 500 of
  the \<^verbatim>\<open>catch\<close>.
\<close>

definition failed2 :: response where
  "failed2 = cors (json ''Failed to generate image'' 500 [])"

definition fetch2 :: "js_env \<Rightarrow> worker_env \<Rightarrow> request \<Rightarrow> response \<times> ai_call list" where
  "fetch2 E env req =
     (if req_method req = ''OPTIONS'' then
        (cors \<lparr>status = 204, headers = [], body = NoBody\<rparr>, [])
      else if req_authorization req \<noteq> Some (''Bearer '' @ API_KEY env) then
        (cors (json ''Unauthorized'' 401 []), [])
      else if req_method req \<noteq> ''POST'' \<or> req_pathname req \<noteq> ''/'' then
        (cors (json ''Not allowed'' 405 [(''Allow'', ''POST, OPTIONS'')]), [])
      else if \<not> includes_str (toLowerCase (header_or_empty (req_content_type req)))
                 ''application/json'' then
        (cors (json ''Unsupported Media Type, expected application/json'' 415 []), [])
      else
        (case req_json req of
           None \<Rightarrow> (failed2, [])
         | Some b \<Rightarrow>
             (case js_or (get_field b ''prompt'') (JStr []) of
                JStr p \<Rightarrow>
                  (let prompt = trim p in
                   if prompt = [] then (cors (json ''Prompt is required'' 400 []), [])
                   else
                     (let model = selectModel2 (get_field b ''model'') in
                      case resolveDims2 E b of
                        Inl e \<Rightarrow> (failed2, [])
                      | Inr dims \<Rightarrow>
                          (let c = \<lparr>call_model = model, call_prompt = prompt,
                                    call_width = fst dims, call_height = snd dims\<rparr>
                           in case AI_run env c of
                                Some result \<Rightarrow>
                                  (cors \<lparr>status = 200,
                                         headers = make_headers
                                           [(''Content-Type'', ''image/png''),
                                            (''Content-Disposition'',
                                               filename E (fst dims) (snd dims)),
                                            (''Cache-Control'', ''no-store'')],
                                         body = ImageBytes result\<rparr>, [c])
                              | None \<Rightarrow> (failed2, [c]))))
              | _ \<Rightarrow> (failed2, []))))"

section \<open>A concrete environment for the examples\<close>

text \<open>
  The examples below run in one environment. Its \<open>StringToNumber\<close> reads the
  decimal literals without sign or exponent (\<^verbatim>\<open>"16"\<close>, \<^verbatim>\<open>"1.5"\<close>, \<^verbatim>\<open>" 9 "\<close>, and
  \<^verbatim>\<open>""\<close> as 0) and gives \<open>NaN\<close> for every other string; its arithmetic is exact.
  Its \<open>ObjectToNumber\<close> follows the conversion of JavaScript on parsed JSON: it
  throws when the value, or an element of the array it is, is an object with an
  own \<^verbatim>\<open>toString\<close> property (which no JSON value makes callable); otherwise an
  object is \<open>NaN\<close>, an empty array 0, an array of one element the number of that
  element's string, and a longer array \<open>NaN\<close>. The strings of the examples are such
  literals or contain no digit, so JavaScript reads them the same way. Where a
  quotient of an example is a binary64 value (5000 / 2, 304 / 1, every division
  and multiplication by 8), the environment computes what JavaScript computes.
  Where it is not (4 / 3, 16 / 9), the environment shows the exact quotient and
  JavaScript the binary64 value next to it; what such an example establishes is
  that the result is a number and not \<^verbatim>\<open>null\<close>. The sizes that depend on the
  rounding of 16 / 9 are proved for every environment of binary64 accuracy.
\<close>

definition isDigit :: "char \<Rightarrow> bool" where
  "isDigit c = (48 \<le> (of_char c :: nat) \<and> (of_char c :: nat) \<le> 57)"

definition digitsValue :: "string \<Rightarrow> nat" where
  "digitsValue s = foldl (\<lambda>acc c. 10 * acc + (of_char c - 48)) 0 s"

definition decimalLiteral :: "string \<Rightarrow> jsnum" where
  "decimalLiteral str =
     (let s = trim str;
          ip = takeWhile isDigit s;
          rest = dropWhile isDigit s
      in if s = [] then Fin 0
         else if rest = [] then Fin (of_nat (digitsValue ip))
         else if hd rest = CHR ''.'' \<and> list_all isDigit (tl rest) \<and> (ip \<noteq> [] \<or> tl rest \<noteq> [])
           then Fin (of_nat (digitsValue ip)
                     + of_nat (digitsValue (tl rest)) / 10 ^ length (tl rest))
         else NaN)"

fun digitsOf :: "nat \<Rightarrow> nat list" where
  "digitsOf n = (if n < 10 then [n] else n mod 10 # digitsOf (n div 10))"

definition natToString :: "nat \<Rightarrow> string" where
  "natToString n = map (\<lambda>d. char_of (48 + d)) (rev (digitsOf n))"

definition numberToString0 :: "jsnum \<Rightarrow> string" where
  "numberToString0 n =
     (case n of
        NaN \<Rightarrow> ''NaN''
      | PInf \<Rightarrow> ''Infinity''
      | NInf \<Rightarrow> ''-Infinity''
      | Fin q \<Rightarrow>
          (if q = of_int \<lfloor>q\<rfloor> \<and> 0 \<le> q then natToString (nat \<lfloor>q\<rfloor>) else ''?''))"

fun toStringThrows :: "jsval \<Rightarrow> bool" where
  "toStringThrows (JObj fs) = List.member (map fst fs) ''toString''"
| "toStringThrows (JArr xs) = list_ex toStringThrows xs"
| "toStringThrows _ = False"

fun arrayNumber :: "jsval \<Rightarrow> jsnum" where
  "arrayNumber (JArr []) = Fin 0"
| "arrayNumber (JArr [JArr ys]) = arrayNumber (JArr ys)"
| "arrayNumber (JArr [JNum n]) = n"
| "arrayNumber (JArr [JStr s]) = decimalLiteral s"
| "arrayNumber (JArr [JNull]) = Fin 0"
| "arrayNumber _ = NaN"

definition objectToNumber0 :: "jsval \<Rightarrow> js_error + jsnum" where
  "objectToNumber0 v = (if toStringThrows v then Inl TypeError else Inr (arrayNumber v))"

definition E0 :: js_env where
  "E0 = \<lparr>StringToNumber = decimalLiteral, ObjectToNumber = objectToNumber0,
         round64 = Fin, NumberToString = numberToString0\<rparr>"

text \<open>
  A deployment with the secret \<^verbatim>\<open>secret\<close> and a backend that returns an empty
  image, and helpers for the first variant that take the token after
  \<^verbatim>\<open>Bearer \<close> and compare it by equality.
\<close>

definition env0 :: worker_env where
  "env0 = \<lparr>API_KEY = ''secret'', AI_run = (\<lambda>c. Some [])\<rparr>"

definition H0 :: helpers where
  "H0 = \<lparr>parseBearer = (\<lambda>a. if starts_with a ''Bearer '' then Some (drop 7 a) else None),
         safeEqual = (\<lambda>a b. a = b),
         SECURITY_HEADERS = [(''X-Content-Type-Options'', ''nosniff'')]\<rparr>"

section \<open>Reference notions for the claims\<close>

text \<open>
  A fact of binary64 arithmetic that the alignment needs: a result \<open>m / 2\<^sup>k\<close>
  with \<open>\<bar>m\<bar> \<le> 2\<^sup>5\<^sup>3\<close> and \<open>k \<le> 1074\<close> is a binary64 value, so rounding leaves
  it as it is. Dividing a dimension by 8 and multiplying a quotient by 8 are of
  this kind.
\<close>

definition exact_on_dyadics :: "js_env \<Rightarrow> bool" where
  "exact_on_dyadics E =
     (\<forall>(m::int) (k::nat). \<bar>m\<bar> \<le> 2 ^ 53 \<and> k \<le> 1074 \<longrightarrow>
        round64 E (of_int m / 2 ^ k) = Fin (of_int m / 2 ^ k))"

text \<open>
  A second fact of binary64 arithmetic, used for the examples with the ratio
  16:9: between 1 and \<open>2\<^sup>5\<^sup>3\<close> the rounded result is finite and within a relative
  error of \<open>2\<^sup>-\<^sup>5\<^sup>3\<close> of the exact one.
\<close>

definition accurate64 :: "js_env \<Rightarrow> bool" where
  "accurate64 E =
     (\<forall>q. 1 \<le> q \<and> q \<le> 2 ^ 53 \<longrightarrow> (\<exists>r. round64 E q = Fin r \<and> \<bar>r - q\<bar> \<le> q / 2 ^ 53))"

text \<open>
  The specification's words, on integers: clamping to \<open>[256, 2048]\<close>; rounding
  to the nearest multiple of 8, never below 8; and a dimension the stricter
  variant may return, a multiple of 8 within \<open>[256, 2048]\<close>.
\<close>

definition spec_clamp :: "int \<Rightarrow> int" where
  "spec_clamp x = max 256 (min 2048 x)"

definition spec_align8 :: "int \<Rightarrow> int" where
  "spec_align8 x = max 8 (8 * \<lfloor>(of_int x :: rat) / 8 + 1 / 2\<rfloor>)"

definition aligned_dim :: "jsnum \<Rightarrow> bool" where
  "aligned_dim d =
     (case d of
        Fin q \<Rightarrow> q = of_int \<lfloor>q\<rfloor> \<and> \<lfloor>q\<rfloor> mod 8 = 0 \<and> 256 \<le> q \<and> q \<le> 2048
      | _ \<Rightarrow> False)"

text \<open>
  A dimension as the specification promises it: an integer within \<open>[256, 2048]\<close>.
\<close>

definition spec_dim_ok :: "jsnum \<Rightarrow> bool" where
  "spec_dim_ok d = (isInteger d \<and> js_le (Fin 256) d \<and> js_le d (Fin 2048))"

text \<open>
  The inputs of Examples 2 and 3 of the specification: the ratio \<^verbatim>\<open>"16:9"\<close> with and
  without a long edge of 1920, as arguments of \<^verbatim>\<open>pickDims\<close> and as parsed bodies.
\<close>

definition args_16_9 :: "jsval \<Rightarrow> dim_args" where
  "args_16_9 l = \<lparr>width = JUndefined, height = JUndefined,
                  aspectRatio = JStr ''16:9'', longEdge = l\<rparr>"

definition body_16_9 :: jsval where
  "body_16_9 = JObj [(''prompt'', JStr ''x''), (''aspectRatio'', JStr ''16:9'')]"

definition body_16_9_1920 :: jsval where
  "body_16_9_1920 =
     JObj [(''prompt'', JStr ''x''), (''aspectRatio'', JStr ''16:9''),
           (''longEdge'', JNum (Fin 1920))]"

text \<open>
  A body with both dimensions and a \<^verbatim>\<open>longEdge\<close> that cannot be converted to a
  number, \<^verbatim>\<open>{"prompt":"x","width":1920,"height":1080,"longEdge":{"toString":1}}\<close>;
  a body with such a \<^verbatim>\<open>width\<close>, \<^verbatim>\<open>{"prompt":"a cat","width":{"toString":1}}\<close>;
  and the request that carries a given body past the access checks.
\<close>

definition body_bad_longEdge :: jsval where
  "body_bad_longEdge =
     JObj [(''prompt'', JStr ''x''), (''width'', JNum (Fin 1920)), (''height'', JNum (Fin 1080)),
           (''longEdge'', JObj [(''toString'', JNum (Fin 1))])]"

definition body_bad_width :: jsval where
  "body_bad_width =
     JObj [(''prompt'', JStr ''a cat''), (''width'', JObj [(''toString'', JNum (Fin 1))])]"

definition req_body :: "jsval \<Rightarrow> request" where
  "req_body b = \<lparr>req_method = ''POST'', req_pathname = ''/'',
      req_authorization = Some ''Bearer secret'',
      req_content_type = Some ''application/json'',
      req_json = Some b\<rparr>"



section \<open>Facts about the handlers\<close>

lemma and_then_Inr [simp]: "and_then (Inr x) f = f x"
  by (simp add: and_then_def)

lemma and_then_Inl [simp]: "and_then (Inl e) f = Inl e"
  by (simp add: and_then_def)

lemma lower_allow: "toLowerCase ''Allow'' = ''allow''"
  by code_simp

lemma lower_ct: "toLowerCase ''Content-Type'' = ''content-type''"
  by code_simp


lemma json_status [simp]: "status (json m st ex) = st"
  by (simp add: json_def)

lemma json_body [simp]: "body (json m st ex) = JsonError m"
  by (simp add: json_def)

lemma cors_status [simp]: "status (cors r) = status r"
  by (simp add: cors_def)

lemma cors_body [simp]: "body (cors r) = body r"
  by (simp add: cors_def)

lemma allow_header:
  "get_header (cors (json m st [(''Allow'', v)])) ''Allow'' = Some v"
  by (simp add: get_header_def cors_def json_def make_headers_def lower_allow lower_ct)
















lemma E0_simps [simp]:
  "StringToNumber E0 = decimalLiteral" "round64 E0 = Fin" "ObjectToNumber E0 = objectToNumber0"
  by (simp_all add: E0_def)





lemma js_or_obj [simp]: "js_or (JObj fs) d = JObj fs"
  by (simp add: js_or_def)




section \<open>The claims about the access checks and the request validator\<close>

text \<open>
  Claim C3 (method and path check), as the code has it. A request with the method
  \<^verbatim>\<open>OPTIONS\<close> gets status 204 and no body from both variants. Any other request
  whose method is not \<^verbatim>\<open>POST\<close> or whose path is not \<^verbatim>\<open>/\<close> gets 405 with
  \<^verbatim>\<open>Allow: POST, OPTIONS\<close> from the first variant, whatever its headers and body.
  The second variant checks the \<^verbatim>\<open>Authorization\<close> header before the method and
  the path (lines 137-146): it answers 405 with the \<^verbatim>\<open>Allow\<close> header when the
  header is \<^verbatim>\<open>Bearer \<close> followed by the secret, and 401 otherwise.
\<close>

theorem C3_method_path_check:
  "(req_method req = ''OPTIONS'' \<longrightarrow>
      (\<exists>r. fetch1 E H env req = Inr (r, []) \<and> status r = 204 \<and> body r = NoBody) \<and>
      status (fst (fetch2 E env req)) = 204 \<and> body (fst (fetch2 E env req)) = NoBody)
   \<and> (req_method req \<noteq> ''OPTIONS'' \<and>
        (req_method req \<noteq> ''POST'' \<or> req_pathname req \<noteq> ''/'') \<longrightarrow>
      (\<exists>r. fetch1 E H env req = Inr (r, []) \<and> status r = 405 \<and>
           get_header r ''Allow'' = Some ''POST, OPTIONS'') \<and>
      (if req_authorization req = Some (''Bearer '' @ API_KEY env)
       then status (fst (fetch2 E env req)) = 405 \<and>
            get_header (fst (fetch2 E env req)) ''Allow'' = Some ''POST, OPTIONS''
       else status (fst (fetch2 E env req)) = 401))"
  by (auto simp: fetch1_def fetch2_def allow_header)

text \<open>
  Both hypotheses are met: a pre-flight request, and a \<^verbatim>\<open>GET\<close> that carries the
  secret.
\<close>

theorem C3_method_path_check_witness:
  "(\<exists>r. fetch1 E0 H0 env0
     \<lparr>req_method = ''OPTIONS'', req_pathname = ''/'', req_authorization = None,
      req_content_type = None, req_json = None\<rparr> = Inr (r, []) \<and> status r = 204)
   \<and> status (fst (fetch2 E0 env0
     \<lparr>req_method = ''OPTIONS'', req_pathname = ''/'', req_authorization = None,
      req_content_type = None, req_json = None\<rparr>)) = 204
   \<and> (\<exists>r. fetch1 E0 H0 env0
     \<lparr>req_method = ''GET'', req_pathname = ''/'', req_authorization = Some ''Bearer secret'',
      req_content_type = None, req_json = None\<rparr> = Inr (r, []) \<and> status r = 405)
   \<and> get_header (fst (fetch2 E0 env0
     \<lparr>req_method = ''GET'', req_pathname = ''/'', req_authorization = Some ''Bearer secret'',
      req_content_type = None, req_json = None\<rparr>)) ''Allow'' = Some ''POST, OPTIONS''"
  using
    C3_method_path_check [of "\<lparr>req_method = ''OPTIONS'', req_pathname = ''/'',
      req_authorization = None, req_content_type = None, req_json = None\<rparr>" E0 H0 env0]
    C3_method_path_check [of "\<lparr>req_method = ''GET'', req_pathname = ''/'',
      req_authorization = Some ''Bearer secret'', req_content_type = None,
      req_json = None\<rparr>" E0 H0 env0]
  by (simp add: env0_def) blast

text \<open>
  Where the claim as written fails: a \<^verbatim>\<open>GET\<close> without an \<^verbatim>\<open>Authorization\<close>
  header gets 401 and no \<^verbatim>\<open>Allow\<close> header from the second variant.
\<close>

theorem C3_method_path_check_counterexample:
  "req_method \<lparr>req_method = ''GET'', req_pathname = ''/'', req_authorization = None,
      req_content_type = None, req_json = None\<rparr> \<noteq> ''OPTIONS''
   \<and> req_method \<lparr>req_method = ''GET'', req_pathname = ''/'', req_authorization = None,
      req_content_type = None, req_json = None\<rparr> \<noteq> ''POST''
   \<and> status (fst (fetch2 E0 env0
     \<lparr>req_method = ''GET'', req_pathname = ''/'', req_authorization = None,
      req_content_type = None, req_json = None\<rparr>)) = 401
   \<and> get_header (fst (fetch2 E0 env0
     \<lparr>req_method = ''GET'', req_pathname = ''/'', req_authorization = None,
      req_content_type = None, req_json = None\<rparr>)) ''Allow'' = None"
  by (simp add: fetch2_def get_header_def cors_def json_def make_headers_def lower_allow lower_ct)







section \<open>Facts about the sizing functions\<close>

subsection \<open>Splitting and the aspect ratio\<close>

lemma split_delims_nonempty [simp]: "split_delims s \<noteq> []"
  by (induction s) auto

lemma hd_split_delims: "hd (split_delims s) = takeWhile (\<lambda>c. \<not> isDelim c) s"
  by (induction s) auto

lemma split_delims_first:
  "\<forall>c \<in> set a. \<not> isDelim c \<Longrightarrow> isDelim d \<Longrightarrow>
   split_delims (a @ d # rest) = a # split_delims rest"
  by (induction a) auto

lemma split_delims_two:
  assumes "\<forall>c \<in> set a. \<not> isDelim c" and "isDelim d"
  shows "\<exists>ps. split_delims (a @ d # rest) = a # takeWhile (\<lambda>c. \<not> isDelim c) rest # ps"
proof -
  obtain x xs where "split_delims rest = x # xs"
    by (cases "split_delims rest") auto
  moreover from this have "x = takeWhile (\<lambda>c. \<not> isDelim c) rest"
    using hd_split_delims [of rest] by simp
  ultimately show ?thesis
    using split_delims_first [OF assms, of rest] by simp
qed

lemma has_delim_iff: "(CHR '':'' \<in> set s \<or> CHR ''/'' \<in> set s) = (\<exists>c \<in> set s. isDelim c)"
  by (auto simp: isDelim_def)

text \<open>The trimmed string has a first delimiter.\<close>
lemma parseAspectRatio_split:
  assumes "trim str = a @ d # rest" and "\<forall>c \<in> set a. \<not> isDelim c" and "isDelim d"
  shows "parseAspectRatio E (JStr str) =
     (if pos_finite (StringToNumber E a) \<and>
         pos_finite (StringToNumber E (takeWhile (\<lambda>c. \<not> isDelim c) rest))
      then Some (js_div E (StringToNumber E a)
                   (StringToNumber E (takeWhile (\<lambda>c. \<not> isDelim c) rest)))
      else None)"
proof -
  from split_delims_two [OF assms(2,3), of rest]
  obtain ps where ps: "split_delims (a @ d # rest) = a # takeWhile (\<lambda>c. \<not> isDelim c) rest # ps"
    by blast
  have "CHR '':'' \<in> set (trim str) \<or> CHR ''/'' \<in> set (trim str)"
    using assms(1,3) by (auto simp: isDelim_def)
  then show ?thesis
    using assms(1) ps
    by (auto simp: parseAspectRatio_def Let_def pos_finite_def)
qed

lemma parseAspectRatio_plain:
  assumes "trim str \<noteq> []" and "\<forall>c \<in> set (trim str). \<not> isDelim c"
  shows "parseAspectRatio E (JStr str) =
     (if pos_finite (StringToNumber E (trim str)) then Some (StringToNumber E (trim str)) else None)"
  using assms by (auto simp: parseAspectRatio_def Let_def pos_finite_def isDelim_def)

lemma parseAspectRatio_null:
  "(\<forall>str. ar \<noteq> JStr str) \<or> (\<exists>str. ar = JStr str \<and> trim str = []) \<Longrightarrow> parseAspectRatio E ar = None"
  by (auto simp: parseAspectRatio_def Let_def split: jsval.splits)

subsection \<open>The example environment\<close>

lemma trim_4_3: "trim '' 4/3 '' = ''4'' @ CHR ''/'' # ''3''"
  by code_simp

lemma trim_1_5: "trim ''1.5'' = ''1.5''"
  by code_simp

lemma trim_0_5: "trim ''0:5'' = ''0'' @ CHR '':'' # ''5''"
  by code_simp

lemma lit_0: "decimalLiteral ''0'' = Fin 0" by code_simp
lemma lit_3: "decimalLiteral ''3'' = Fin 3" by code_simp
lemma lit_4: "decimalLiteral ''4'' = Fin 4" by code_simp
lemma lit_5: "decimalLiteral ''5'' = Fin 5" by code_simp
lemma lit_9: "decimalLiteral ''9'' = Fin 9" by code_simp
lemma lit_16: "decimalLiteral ''16'' = Fin 16" by code_simp
lemma lit_1_5: "decimalLiteral ''1.5'' = Fin (3 / 2)" by code_simp

lemma pos_finite_Fin [simp]: "pos_finite (Fin q) = (0 < q)"
  by (simp add: pos_finite_def isFinite_def js_gt_def)

lemma trim_16_9_4: "trim ''16:9:4'' = ''16'' @ CHR '':'' # ''9'' @ CHR '':'' # ''4''"
  by code_simp

lemma exact_E0: "exact_on_dyadics E0"
  by (simp add: exact_on_dyadics_def E0_def)

subsection \<open>Clamping and alignment\<close>

lemma exact_div8:
  assumes "exact_on_dyadics E" and "\<bar>c\<bar> \<le> 2 ^ 53"
  shows "round64 E (of_int c / 8) = Fin (of_int c / 8)"
  using assms(1) [unfolded exact_on_dyadics_def, rule_format, of c 3] assms(2) by simp

lemma exact_int:
  assumes "exact_on_dyadics E" and "\<bar>c\<bar> \<le> 2 ^ 53"
  shows "round64 E (of_int c) = Fin (of_int c)"
  using assms(1) [unfolded exact_on_dyadics_def, rule_format, of c 0] assms(2) by simp

lemma isInteger_of_int [simp]: "isInteger (Fin (of_int a))"
  by (simp add: isInteger_def)

lemma floor_half_of_int: "\<lfloor>(of_int a :: rat) + 1 / 2\<rfloor> = a"
  by (rule floor_unique) simp_all

lemma Math_round_of_int [simp]: "Math_round (Fin (of_int a)) = Fin (of_int a)"
  by (simp add: Math_round_def floor_half_of_int)

lemma clamp_Fin:
  "Math_min (Fin 2048) (Math_max (Fin 256) (Fin (of_int a))) = Fin (of_int (spec_clamp a))"
  by (auto simp: Math_min_def Math_max_def spec_clamp_def)

lemma spec_clamp_range: "256 \<le> spec_clamp a \<and> spec_clamp a \<le> 2048"
  by (simp add: spec_clamp_def)

lemma spec_align8_alt: "spec_align8 x = max 8 (8 * ((x + 4) div 8))"
proof -
  have "(of_int x :: rat) / 8 + 1 / 2 = of_int (x + 4) / of_int 8" by simp
  then have "\<lfloor>(of_int x :: rat) / 8 + 1 / 2\<rfloor> = (x + 4) div 8"
    by (simp only: floor_divide_of_int_eq)
  then show ?thesis by (simp add: spec_align8_def)
qed

lemma spec_align8_range:
  assumes "256 \<le> c" and "c \<le> 2048"
  shows "spec_align8 c mod 8 = 0 \<and> 256 \<le> spec_align8 c \<and> spec_align8 c \<le> 2048 \<and>
         spec_align8 c = 8 * ((c + 4) div 8)"
  using assms unfolding spec_align8_alt by auto

text \<open>What \<^verbatim>\<open>parseDim\<close> computes from an accepted number.\<close>
lemma align_step:
  assumes "exact_on_dyadics E" and "256 \<le> c" and "c \<le> 2048"
  shows "Math_max (Fin 8) (js_mul E (Math_round (js_div E (Fin (of_int c)) (Fin 8))) (Fin 8))
         = Fin (of_int (spec_align8 c))"
proof -
  have c53: "\<bar>c\<bar> \<le> 2 ^ 53" using assms(2,3) by simp
  have d: "js_div E (Fin (of_int c)) (Fin 8) = Fin (of_int c / 8)"
    by (simp add: exact_div8 [OF assms(1) c53])
  have r: "Math_round (Fin (of_int c / 8)) = Fin (of_int ((c + 4) div 8))"
  proof -
    have "(of_int c :: rat) / 8 + 1 / 2 = of_int (c + 4) / of_int 8" by simp
    then have "\<lfloor>(of_int c :: rat) / 8 + 1 / 2\<rfloor> = (c + 4) div 8"
      by (simp only: floor_divide_of_int_eq)
    then show ?thesis by (simp add: Math_round_def)
  qed
  have j53: "\<bar>(c + 4) div 8 * 8\<bar> \<le> 2 ^ 53" using assms(2,3) by simp
  have m: "js_mul E (Fin (of_int ((c + 4) div 8))) (Fin 8) = Fin (of_int ((c + 4) div 8 * 8))"
    using exact_int [OF assms(1) j53] by simp
  have "8 \<le> (c + 4) div 8 * 8" using assms(2) by simp
  then have "Math_max (Fin 8) (Fin (of_int ((c + 4) div 8 * 8))) = Fin (of_int ((c + 4) div 8 * 8))"
    by (simp add: Math_max_def)
  moreover have "spec_align8 c = (c + 4) div 8 * 8"
    using spec_align8_range [OF assms(2,3)] by simp
  ultimately show ?thesis by (simp only: d r m)
qed

lemma parseDim_Fin:
  assumes "exact_on_dyadics E" and "0 < q"
  shows "parseDim E (JNum (Fin q)) =
     Inr (Some (Fin (of_int (spec_align8 (spec_clamp \<lfloor>q + 1 / 2\<rfloor>)))))"
proof -
  have "Math_round (Fin q) = Fin (of_int \<lfloor>q + 1 / 2\<rfloor>)" by (simp add: Math_round_def)
  moreover have "\<not> (\<not> isFinite (Fin q) \<or> js_le (Fin q) (Fin 0))"
    using assms(2) by (simp add: isFinite_def js_le_def)
  ultimately show ?thesis
    unfolding parseDim_def Let_def
    by (simp only: clamp_Fin align_step [OF assms(1)] spec_clamp_range
          jsval.simps ToNumber.simps and_then_Inr if_False simp_thms)
qed

text \<open>\<^verbatim>\<open>parseDim\<close> on a number never throws, and rejects what is not finite and above 0.\<close>

lemma parseDim_rejects:
  "\<not> pos_finite n \<Longrightarrow> parseDim E (JNum n) = Inr None"
  by (cases n) (auto simp: parseDim_def pos_finite_def isFinite_def js_le_def js_gt_def)

lemma parseDim_absent [simp]: "parseDim E JUndefined = Inr None" "parseDim E JNull = Inr None"
  by (simp_all add: parseDim_def)

lemma pos_finite_cases: "pos_finite n = (\<exists>q. n = Fin q \<and> 0 < q)"
  by (cases n) (auto simp: pos_finite_def isFinite_def js_gt_def)

text \<open>On any other value \<^verbatim>\<open>parseDim\<close> converts first, and goes on as on the number.\<close>

lemma parseDim_via_number:
  "v \<noteq> JUndefined \<Longrightarrow> v \<noteq> JNull \<Longrightarrow>
   parseDim E v =
     and_then (case v of JStr s \<Rightarrow> Inr (StringToNumber E (trim s)) | _ \<Rightarrow> ToNumber E v)
       (\<lambda>n. parseDim E (JNum n))"
  by (cases "case v of JStr s \<Rightarrow> Inr (StringToNumber E (trim s)) | _ \<Rightarrow> ToNumber E v")
     (simp_all add: parseDim_def)

lemma aligned_dim_of_int:
  "aligned_dim (Fin (of_int k)) = (k mod 8 = 0 \<and> 256 \<le> k \<and> k \<le> 2048)"
  by (simp add: aligned_dim_def)

lemma aligned_dim_align8:
  assumes "256 \<le> c" and "c \<le> 2048"
  shows "aligned_dim (Fin (of_int (spec_align8 c)))"
  unfolding aligned_dim_of_int using spec_align8_range [OF assms] by blast

lemma parseDim_num_cases:
  assumes "exact_on_dyadics E"
  shows "parseDim E (JNum n) = Inr None \<or>
         (\<exists>d. parseDim E (JNum n) = Inr (Some d) \<and> aligned_dim d)"
proof (cases "pos_finite n")
  case False
  then show ?thesis by (simp add: parseDim_rejects)
next
  case True
  then obtain q where q: "n = Fin q" "0 < q" by (auto simp: pos_finite_cases)
  show ?thesis
    using parseDim_Fin [OF assms q(2)] aligned_dim_align8 [of "spec_clamp \<lfloor>q + 1 / 2\<rfloor>"]
      spec_clamp_range q(1)
    by simp
qed

lemma parseDim_aligned:
  assumes "exact_on_dyadics E" and "parseDim E v = Inr (Some d)"
  shows "aligned_dim d"
proof -
  from assms(2) have v: "v \<noteq> JUndefined" "v \<noteq> JNull" by auto
  from parseDim_via_number [OF v, of E] assms(2)
  obtain n where "parseDim E (JNum n) = Inr (Some d)"
    by (auto simp: and_then_def split: sum.splits)
  with parseDim_num_cases [OF assms(1), of n] show ?thesis by auto
qed

lemma aligned_dim_truthy: "aligned_dim d \<Longrightarrow> num_truthy d"
  by (cases d) (auto simp: aligned_dim_def num_truthy_def)

lemma or_default_aligned:
  "r = None \<or> (\<exists>d. r = Some d \<and> aligned_dim d) \<Longrightarrow> aligned_dim (or_default r (Fin 1024))"
  by (auto simp: or_default_def aligned_dim_truthy) (simp add: aligned_dim_def)

lemma parseDim_accepts:
  assumes "exact_on_dyadics E" and "v \<noteq> JUndefined" and "v \<noteq> JNull"
    and "(case v of JStr s \<Rightarrow> Inr (StringToNumber E (trim s)) | _ \<Rightarrow> ToNumber E v) = Inr n"
    and "pos_finite n"
  shows "\<exists>d. parseDim E v = Inr (Some d)"
proof -
  from assms(5) obtain q where q: "n = Fin q" "0 < q" by (auto simp: pos_finite_cases)
  show ?thesis
    using parseDim_via_number [OF assms(2,3), of E] parseDim_Fin [OF assms(1) q(2)] q(1) assms(4)
    by simp
qed

lemma js_le_8_aligned: "aligned_dim d \<Longrightarrow> js_le (Fin 8) d"
  by (cases d) (auto simp: aligned_dim_def js_le_def)

subsection \<open>The second variant's block\<close>

lemma parseDim_num_total: "\<exists>r. parseDim E (JNum n) = Inr r"
  by (simp add: parseDim_def)

lemma parseDim_result:
  assumes "exact_on_dyadics E" and "parseDim E v = Inr r"
  shows "r = None \<or> (\<exists>d. r = Some d \<and> aligned_dim d)"
  using parseDim_aligned [OF assms(1), of v] assms(2) by (cases r) auto

lemma parseDim_idem:
  assumes "exact_on_dyadics E" and "aligned_dim d"
  shows "parseDim E (JNum d) = Inr (Some d)"
proof -
  from assms(2) obtain q where q: "d = Fin q" "q = of_int \<lfloor>q\<rfloor>" "\<lfloor>q\<rfloor> mod 8 = 0"
    "256 \<le> q" "q \<le> 2048"
    by (cases d) (auto simp: aligned_dim_def)
  define k where "k = \<lfloor>q\<rfloor>"
  have qk: "q = of_int k" using q(2) by (simp add: k_def)
  have k: "k mod 8 = 0" "256 \<le> k" "k \<le> 2048"
    using q(3,4,5) by (simp_all add: k_def le_floor_iff floor_le_iff)
  have "spec_clamp k = k" using k by (simp add: spec_clamp_def)
  moreover have "spec_align8 k = k"
    using k unfolding spec_align8_alt by presburger
  moreover have "0 < q" using q(4) by simp
  ultimately show ?thesis
    using parseDim_Fin [OF assms(1), of q] by (simp add: q(1) qk floor_half_of_int)
qed

lemma parseDim_aligned_int:
  assumes "exact_on_dyadics E" and "k mod 8 = 0" and "256 \<le> k" and "k \<le> 2048"
  shows "parseDim E (JNum (Fin (of_int k))) = Inr (Some (Fin (of_int k)))"
  using parseDim_idem [OF assms(1), of "Fin (of_int k)"] assms(2-4)
  by (simp add: aligned_dim_of_int)

lemma nullish_aligned:
  "r = None \<or> (\<exists>d. r = Some d \<and> aligned_dim d) \<Longrightarrow> aligned_dim (nullish r (Fin 1024))"
  by (auto simp: nullish_def) (simp add: aligned_dim_def)

text \<open>
  What the block returns once the three fields are converted: every branch ends
  in \<^verbatim>\<open>parseDim\<close> results, and \<^verbatim>\<open>parseDim\<close> on a number does not throw.
\<close>

lemma resolveDims2_after_fields:
  assumes "parseDim E (get_field parsed ''width'') = Inr pw"
    and "parseDim E (get_field parsed ''height'') = Inr ph"
    and "parseDim E (get_field parsed ''longEdge'') = Inr pl"
  shows "\<exists>x y rx ry. (x = get_field parsed ''width'' \<or> (\<exists>n. x = JNum n)) \<and>
           (y = get_field parsed ''height'' \<or> (\<exists>n. y = JNum n)) \<and>
           parseDim E x = Inr rx \<and> parseDim E y = Inr ry \<and>
           resolveDims2 E parsed = Inr (or_default rx (Fin 1024), or_default ry (Fin 1024))"
proof -
  define ar where "ar = nullish (parseAspectRatio E (get_field parsed ''aspectRatio'')) (Fin 1)"
  define le where "le = nullish pl (Fin 1024)"
  obtain a where a: "parseDim E (JNum (Math_round (js_div E (opt_number pw) ar))) = Inr a"
    using parseDim_num_total by blast
  obtain b where b: "parseDim E (JNum (Math_round (js_mul E (opt_number ph) ar))) = Inr b"
    using parseDim_num_total by blast
  obtain c where c: "parseDim E (JNum le) = Inr c"
    using parseDim_num_total by blast
  obtain d where d: "parseDim E (JNum (Math_round (js_div E le ar))) = Inr d"
    using parseDim_num_total by blast
  obtain f where f: "parseDim E (JNum (Math_round (js_mul E le ar))) = Inr f"
    using parseDim_num_total by blast
  have r: "resolveDims2 E parsed =
     Inr (if opt_truthy pw \<and> opt_truthy ph then (or_default pw (Fin 1024), or_default ph (Fin 1024))
          else if opt_truthy pw \<and> \<not> opt_truthy ph then
            (or_default pw (Fin 1024), or_default a (Fin 1024))
          else if \<not> opt_truthy pw \<and> opt_truthy ph then
            (or_default b (Fin 1024), or_default ph (Fin 1024))
          else if js_ge ar (Fin 1) then (or_default c (Fin 1024), or_default d (Fin 1024))
          else (or_default f (Fin 1024), or_default c (Fin 1024)))"
    by (simp add: resolveDims2_def Let_def assms a b c d f ar_def [symmetric] le_def [symmetric])
  show ?thesis
    unfolding r using assms a b c d f by (auto split: if_splits)
qed

lemma resolveDims2_returns:
  assumes "parseDim E (get_field parsed ''width'') = Inr pw"
    and "parseDim E (get_field parsed ''height'') = Inr ph"
    and "parseDim E (get_field parsed ''longEdge'') = Inr pl"
  shows "\<exists>w h. resolveDims2 E parsed = Inr (w, h)"
  using resolveDims2_after_fields [OF assms] by blast

lemma resolveDims2_fields:
  assumes "resolveDims2 E parsed = Inr wh"
  shows "\<exists>pw ph pl. parseDim E (get_field parsed ''width'') = Inr pw \<and>
           parseDim E (get_field parsed ''height'') = Inr ph \<and>
           parseDim E (get_field parsed ''longEdge'') = Inr pl"
  using assms unfolding resolveDims2_def
  by (cases "parseDim E (get_field parsed ''width'')";
      cases "parseDim E (get_field parsed ''height'')";
      cases "parseDim E (get_field parsed ''longEdge'')") simp_all

lemma resolveDims2_aligned:
  assumes "exact_on_dyadics E" and "resolveDims2 E parsed = Inr (w, h)"
  shows "aligned_dim w \<and> aligned_dim h"
proof -
  from resolveDims2_fields [OF assms(2)] obtain pw ph pl where
    "parseDim E (get_field parsed ''width'') = Inr pw"
    "parseDim E (get_field parsed ''height'') = Inr ph"
    "parseDim E (get_field parsed ''longEdge'') = Inr pl"
    by blast
  from resolveDims2_after_fields [OF this] obtain x y rx ry where
    r: "parseDim E x = Inr rx" "parseDim E y = Inr ry"
    "resolveDims2 E parsed = Inr (or_default rx (Fin 1024), or_default ry (Fin 1024))"
    by blast
  from r(3) assms(2) have "w = or_default rx (Fin 1024)" "h = or_default ry (Fin 1024)"
    by simp_all
  then show ?thesis
    using or_default_aligned [OF parseDim_result [OF assms(1) r(1)]]
      or_default_aligned [OF parseDim_result [OF assms(1) r(2)]]
    by simp
qed

subsection \<open>Both dimensions given\<close>

lemma clamp_num [simp]:
  "clamp E (JNum n) lo hi = Inr (Math_min hi (Math_max lo n))"
  by (simp add: clamp_def)

lemma pickDims_explicit:
  assumes "0 < a" and "0 < b"
    and "width args = JNum (Fin (of_int a))" and "height args = JNum (Fin (of_int b))"
  shows "pickDims E args = Inr (Fin (of_int (spec_clamp a)), Fin (of_int (spec_clamp b)))"
  using assms
  by (simp add: pickDims_def Let_def js_gt_def MIN_DIM_def MAX_DIM_def clamp_Fin)

text \<open>
  The second variant converts \<^verbatim>\<open>longEdge\<close> before it looks at the two
  dimensions (line 168), so that conversion decides whether it returns at all.
\<close>

lemma resolveDims2_explicit:
  assumes "exact_on_dyadics E" and "0 < a" and "0 < b"
    and "get_field parsed ''width'' = JNum (Fin (of_int a))"
    and "get_field parsed ''height'' = JNum (Fin (of_int b))"
  shows "resolveDims2 E parsed =
     and_then (parseDim E (get_field parsed ''longEdge'')) (\<lambda>lp.
       Inr (Fin (of_int (spec_align8 (spec_clamp a))), Fin (of_int (spec_align8 (spec_clamp b)))))"
proof -
  have w: "parseDim E (JNum (Fin (of_int a))) =
      Inr (Some (Fin (of_int (spec_align8 (spec_clamp a)))))"
    using parseDim_Fin [OF assms(1), of "of_int a"] assms(2) by (simp add: floor_half_of_int)
  have h: "parseDim E (JNum (Fin (of_int b))) =
      Inr (Some (Fin (of_int (spec_align8 (spec_clamp b)))))"
    using parseDim_Fin [OF assms(1), of "of_int b"] assms(3) by (simp add: floor_half_of_int)
  have t: "num_truthy (Fin (of_int (spec_align8 (spec_clamp x))))" for x
    using aligned_dim_align8 [of "spec_clamp x"] spec_clamp_range [of x]
    by (simp add: aligned_dim_truthy)
  show ?thesis
    by (cases "parseDim E (get_field parsed ''longEdge'')")
       (simp_all add: resolveDims2_def Let_def assms(4,5) w h opt_truthy_def or_default_def t)
qed

subsection \<open>The long-edge branch and the examples with the ratio 16:9\<close>

lemma or_default_truthy: "num_truthy d \<Longrightarrow> num_truthy (or_default r d)"
  by (simp add: or_default_def split: option.splits)

text \<open>
  \<^verbatim>\<open>clamp(v || 1024, 256, 2048)\<close> once \<open>v\<close> is known to convert to \<open>l\<close>: the number
  \<open>l\<close> when \<open>v\<close> is truthy, 1024 otherwise, clamped.
\<close>

lemma clamp_or_default:
  assumes "ToNumber E v = Inr l"
  shows "clamp E (js_or v (JNum (Fin 1024))) (Fin 256) (Fin 2048) =
     Inr (Math_min (Fin 2048) (Math_max (Fin 256) (if truthy v then l else Fin 1024)))"
  using assms by (simp add: clamp_def js_or_def)

lemma pickDims_longEdge:
  assumes "ToNumber E (width args) = Inr w" and "\<not> (isInteger w \<and> js_gt w (Fin 0))"
    and "ToNumber E (height args) = Inr h" and "\<not> (isInteger h \<and> js_gt h (Fin 0))"
    and "L = (if longEdge args = JUndefined then JNum (Fin 1024) else longEdge args)"
    and "r = or_default (parseAspectRatio E (aspectRatio args)) (Fin 1)"
  shows "pickDims E args =
     and_then (ToNumber E L) (\<lambda>l.
       Inr (if js_ge r (Fin 1) then
              (Math_min (Fin 2048) (Math_max (Fin 256) (if truthy L then l else Fin 1024)),
               Math_min (Fin 2048) (Math_max (Fin 256)
                 (or_default (Some (Math_round (js_div E l r))) (Fin 1024))))
            else
              (Math_min (Fin 2048) (Math_max (Fin 256)
                 (or_default (Some (Math_round (js_mul E l r))) (Fin 1024))),
               Math_min (Fin 2048) (Math_max (Fin 256) (if truthy L then l else Fin 1024)))))"
proof -
  have t: "num_truthy r"
    unfolding assms(6) by (rule or_default_truthy) (simp add: num_truthy_def)
  have f: "clamp E (js_or (JNum x) (JNum (Fin 1024))) (Fin 256) (Fin 2048) =
      Inr (Math_min (Fin 2048) (Math_max (Fin 256) (or_default (Some x) (Fin 1024))))" for x
    by (simp add: js_or_def or_default_def)
  show ?thesis
  proof (cases "ToNumber E L")
    case (Inl e)
    with assms(1-4) t show ?thesis
      by (auto simp add: pickDims_def Let_def assms(5) [symmetric] assms(6) [symmetric])
  next
    case (Inr l)
    with assms(1-4) t show ?thesis
      by (auto simp add: pickDims_def Let_def assms(5) [symmetric] assms(6) [symmetric]
            MIN_DIM_def MAX_DIM_def DEFAULT_W_def DEFAULT_H_def f
            clamp_or_default [OF Inr] simp del: clamp_num)
  qed
qed

lemma pickDims_throws:
  "ToNumber E (width args) = Inl e \<or>
   (\<exists>w. ToNumber E (width args) = Inr w \<and> ToNumber E (height args) = Inl e)
   \<Longrightarrow> pickDims E args = Inl e"
  by (auto simp: pickDims_def Let_def)

lemma resolveDims2_longEdge:
  assumes "exact_on_dyadics E"
    and "parseDim E (get_field parsed ''width'') = Inr None"
    and "parseDim E (get_field parsed ''height'') = Inr None"
    and "parseDim E (get_field parsed ''longEdge'') = Inr lp"
    and "L = nullish lp (Fin 1024)"
    and "r = nullish (parseAspectRatio E (get_field parsed ''aspectRatio'')) (Fin 1)"
  shows "(js_ge r (Fin 1) \<longrightarrow>
            (\<exists>ph. parseDim E (JNum (Math_round (js_div E L r))) = Inr ph \<and>
                  resolveDims2 E parsed = Inr (L, or_default ph (Fin 1024))))
       \<and> (\<not> js_ge r (Fin 1) \<longrightarrow>
            (\<exists>pw. parseDim E (JNum (Math_round (js_mul E L r))) = Inr pw \<and>
                  resolveDims2 E parsed = Inr (or_default pw (Fin 1024), L)))"
proof -
  have a: "aligned_dim L"
    unfolding assms(5) by (rule nullish_aligned [OF parseDim_result [OF assms(1,4)]])
  have i: "parseDim E (JNum L) = Inr (Some L)"
    by (rule parseDim_idem [OF assms(1) a])
  have o: "or_default (Some L) (Fin 1024) = L"
    by (simp add: or_default_def aligned_dim_truthy [OF a])
  obtain ph where ph: "parseDim E (JNum (Math_round (js_div E L r))) = Inr ph"
    using parseDim_num_total by blast
  obtain pw where pw: "parseDim E (JNum (Math_round (js_mul E L r))) = Inr pw"
    using parseDim_num_total by blast
  show ?thesis
    by (simp add: resolveDims2_def Let_def assms(2,3,4) opt_truthy_def
          assms(5) [symmetric] assms(6) [symmetric] i o ph pw)
qed

lemma trim_16_9: "trim ''16:9'' = ''16'' @ CHR '':'' # ''9''"
  by code_simp

text \<open>The ratio of \<^verbatim>\<open>"16:9"\<close>: the binary64 value next to 16/9.\<close>
lemma ratio_16_9:
  assumes "accurate64 E" and "StringToNumber E ''16'' = Fin 16" and "StringToNumber E ''9'' = Fin 9"
  shows "\<exists>r. parseAspectRatio E (JStr ''16:9'') = Some (Fin r) \<and> 17777 / 10000 \<le> r \<and> r \<le> 17778 / 10000"
proof -
  have p: "parseAspectRatio E (JStr ''16:9'') = Some (round64 E (16 / 9))"
    using parseAspectRatio_split [of "''16:9''" "''16''" "CHR '':''" "''9''" E] assms(2,3)
    by (simp add: trim_16_9 isDelim_def)
  from assms(1) [unfolded accurate64_def, rule_format, of "16 / 9"]
  obtain r where r: "round64 E (16 / 9) = Fin r" "\<bar>r - 16 / 9\<bar> \<le> (16 / 9) / 2 ^ 53"
    by auto
  have "(16 / 9 :: rat) / 2 ^ 53 \<le> 1 / 100000" by simp
  with r(2) have "17777 / 10000 \<le> r \<and> r \<le> 17778 / 10000" by linarith
  with p r(1) show ?thesis by simp
qed

text \<open>A quotient within a quarter of an integer rounds to that integer.\<close>
lemma round_near:
  assumes "accurate64 E" and "1 \<le> x" and "x \<le> 4096" and "\<bar>x - of_int n\<bar> \<le> 1 / 4"
  shows "Math_round (round64 E x) = Fin (of_int n)"
proof -
  have "x \<le> 2 ^ 53" using assms(3) by simp
  with assms(1) [unfolded accurate64_def, rule_format, of x] assms(2)
  obtain r where r: "round64 E x = Fin r" "\<bar>r - x\<bar> \<le> x / 2 ^ 53"
    by auto
  have "x / 2 ^ 53 \<le> 4096 / 2 ^ 53" using assms(3) by (simp add: divide_right_mono)
  also have "\<dots> \<le> (1 / 8 :: rat)" by simp
  finally have "\<bar>r - x\<bar> \<le> 1 / 8" using r(2) by linarith
  with assms(4) have "of_int n \<le> r + 1 / 2 \<and> r + 1 / 2 < of_int n + 1" by linarith
  then have "\<lfloor>r + 1 / 2\<rfloor> = n" by (simp add: floor_unique)
  then show ?thesis by (simp add: r(1) Math_round_def)
qed

lemma round_div_16_9:
  assumes "accurate64 E" and "17777 / 10000 \<le> r" and "r \<le> 17778 / 10000"
  shows "Math_round (js_div E (Fin 1920) (Fin r)) = Fin 1080"
    and "Math_round (js_div E (Fin 1024) (Fin r)) = Fin 576"
proof -
  have r0: "0 < r" using assms(2) by linarith
  define x where "x = 1920 / r"
  define y where "y = 1024 / r"
  have a1: "4319 / 4 \<le> x" "x \<le> 4321 / 4"
    using assms(2,3) r0 by (simp_all add: x_def pos_le_divide_eq pos_divide_le_eq)
  have a: "1 \<le> x" "x \<le> 4096" "\<bar>x - of_int 1080\<bar> \<le> 1 / 4"
    using a1 unfolding of_int_numeral by linarith+
  have b1: "2303 / 4 \<le> y" "y \<le> 2305 / 4"
    using assms(2,3) r0 by (simp_all add: y_def pos_le_divide_eq pos_divide_le_eq)
  have b: "1 \<le> y" "y \<le> 4096" "\<bar>y - of_int 576\<bar> \<le> 1 / 4"
    using b1 unfolding of_int_numeral by linarith+
  show "Math_round (js_div E (Fin 1920) (Fin r)) = Fin 1080"
    using round_near [OF assms(1) a] r0 by (simp add: x_def)
  show "Math_round (js_div E (Fin 1024) (Fin r)) = Fin 576"
    using round_near [OF assms(1) b] r0 by (simp add: y_def)
qed

lemma examples1:
  assumes "accurate64 E" and "StringToNumber E ''16'' = Fin 16" and "StringToNumber E ''9'' = Fin 9"
  shows "pickDims E (args_16_9 (JNum (Fin 1920))) = Inr (Fin 1920, Fin 1080)"
    and "pickDims E (args_16_9 JUndefined) = Inr (Fin 1024, Fin 576)"
proof -
  from ratio_16_9 [OF assms] obtain r where
    r: "parseAspectRatio E (JStr ''16:9'') = Some (Fin r)" "17777 / 10000 \<le> r" "r \<le> 17778 / 10000"
    by blast
  have g: "js_ge (Fin r) (Fin 1)" using r(2) by (simp add: js_ge_def js_le_def)
  note d = round_div_16_9 [OF assms(1) r(2,3)]
  have c: "Math_min (Fin 2048) (Math_max (Fin 256) (Fin q)) = Fin q"
    if "256 \<le> q" "q \<le> 2048" for q
    using that by (auto simp: Math_max_def Math_min_def)
  have n: "r \<noteq> 0" using r(2) by auto
  show "pickDims E (args_16_9 (JNum (Fin 1920))) = Inr (Fin 1920, Fin 1080)"
    by (subst pickDims_longEdge [where w = NaN and h = NaN and L = "JNum (Fin 1920)"
          and r = "Fin r"])
       (simp_all add: args_16_9_def isInteger_def r(1) n g d c or_default_def num_truthy_def
          del: js_div.simps)
  show "pickDims E (args_16_9 JUndefined) = Inr (Fin 1024, Fin 576)"
    by (subst pickDims_longEdge [where w = NaN and h = NaN and L = "JNum (Fin 1024)"
          and r = "Fin r"])
       (simp_all add: args_16_9_def isInteger_def r(1) n g d c or_default_def num_truthy_def
          del: js_div.simps)
qed

lemma examples2:
  assumes "accurate64 E" and "exact_on_dyadics E"
    and "StringToNumber E ''16'' = Fin 16" and "StringToNumber E ''9'' = Fin 9"
  shows "resolveDims2 E body_16_9_1920 = Inr (Fin 1920, Fin 1080)"
    and "resolveDims2 E body_16_9 = Inr (Fin 1024, Fin 576)"
proof -
  from ratio_16_9 [OF assms(1,3,4)] obtain r where
    r: "parseAspectRatio E (JStr ''16:9'') = Some (Fin r)" "17777 / 10000 \<le> r" "r \<le> 17778 / 10000"
    by blast
  have g: "js_ge (Fin r) (Fin 1)" using r(2) by (simp add: js_ge_def js_le_def)
  note d = round_div_16_9 [OF assms(1) r(2,3)]
  have p: "parseDim E (JNum (Fin 1920)) = Inr (Some (Fin 1920))"
    "parseDim E (JNum (Fin 1080)) = Inr (Some (Fin 1080))"
    "parseDim E (JNum (Fin 576)) = Inr (Some (Fin 576))"
    using parseDim_aligned_int [OF assms(2), of 1920] parseDim_aligned_int [OF assms(2), of 1080]
      parseDim_aligned_int [OF assms(2), of 576]
    by simp_all
  show "resolveDims2 E body_16_9_1920 = Inr (Fin 1920, Fin 1080)"
    using resolveDims2_longEdge [OF assms(2), of body_16_9_1920 "Some (Fin 1920)",
        OF _ _ _ refl refl]
    by (simp add: body_16_9_1920_def r(1) nullish_def p g d or_default_def num_truthy_def
          del: js_div.simps)
  show "resolveDims2 E body_16_9 = Inr (Fin 1024, Fin 576)"
    using resolveDims2_longEdge [OF assms(2), of body_16_9 None, OF _ _ _ refl refl]
    by (simp add: body_16_9_def r(1) nullish_def p g d or_default_def num_truthy_def
          del: js_div.simps)
qed

lemma accurate_E0: "accurate64 E0"
  by (simp add: accurate64_def E0_def)

lemma lit_abc: "decimalLiteral ''abc'' = NaN" by code_simp
lemma trim_abc: "trim ''abc'' = ''abc''" by code_simp

subsection \<open>The fallback to the ratio 1\<close>

text \<open>
  Both resolvers use the aspect ratio through its parsed value only, and treat
  \<^verbatim>\<open>null\<close> as they treat the ratio 1.
\<close>

lemma pickDims_ratio_fallback:
  assumes "parseAspectRatio E (aspectRatio args) = None"
    and "parseAspectRatio E a1 = Some (Fin 1)"
  shows "pickDims E args = pickDims E (args\<lparr>aspectRatio := a1\<rparr>)"
proof -
  have "or_default (parseAspectRatio E (aspectRatio args)) (Fin 1) =
      or_default (parseAspectRatio E a1) (Fin 1)"
    by (simp add: assms or_default_def num_truthy_def)
  then show ?thesis by (simp add: pickDims_def Let_def cong del: if_weak_cong)
qed

lemma resolveDims2_ratio_fallback:
  assumes "parseAspectRatio E (get_field parsed ''aspectRatio'') = None"
    and "parseAspectRatio E (get_field parsed' ''aspectRatio'') = Some (Fin 1)"
    and "get_field parsed' ''width'' = get_field parsed ''width''"
    and "get_field parsed' ''height'' = get_field parsed ''height''"
    and "get_field parsed' ''longEdge'' = get_field parsed ''longEdge''"
  shows "resolveDims2 E parsed = resolveDims2 E parsed'"
proof -
  have "nullish (parseAspectRatio E (get_field parsed ''aspectRatio'')) (Fin 1) =
      nullish (parseAspectRatio E (get_field parsed' ''aspectRatio'')) (Fin 1)"
    by (simp add: assms(1,2) nullish_def)
  then show ?thesis by (simp add: resolveDims2_def Let_def assms(3-5) cong del: if_weak_cong)
qed

subsection \<open>The range of the first variant\<close>

lemma clamp_range_or_NaN:
  assumes "clamp E v (Fin 256) (Fin 2048) = Inr x"
  shows "x = NaN \<or> (js_le (Fin 256) x \<and> js_le x (Fin 2048))"
proof -
  from assms obtain n where "ToNumber E v = Inr n"
    and x: "x = Math_min (Fin 2048) (Math_max (Fin 256) n)"
    by (auto simp: clamp_def and_then_def split: sum.splits)
  show ?thesis
    unfolding x by (cases n) (auto simp: Math_max_def Math_min_def js_le_def)
qed

lemma pair_bind:
  assumes "\<And>x. \<forall>w h. f x = Inr (w, h) \<longrightarrow> Q w h"
  shows "\<forall>w h. and_then m f = Inr (w, h) \<longrightarrow> Q w h"
  using assms by (cases m) auto

lemma pair_if:
  assumes "\<forall>w h. a = Inr (w, h) \<longrightarrow> Q w h" and "\<forall>w h. b = Inr (w, h) \<longrightarrow> Q w h"
  shows "\<forall>w h. (if c then a else b) = Inr (w, h) \<longrightarrow> Q w h"
  using assms by simp

lemma pair_clamps:
  "\<forall>w h. and_then (clamp E x lo hi) (\<lambda>cw. and_then (clamp E y lo hi) (\<lambda>ch. Inr (cw, ch)))
       = Inr (w, h) \<longrightarrow> (\<exists>x y. clamp E x lo hi = Inr w \<and> clamp E y lo hi = Inr h)"
  by (cases "clamp E x lo hi"; cases "clamp E y lo hi") auto

lemma pickDims_clamped:
  "\<forall>w h. pickDims E args = Inr (w, h) \<longrightarrow>
     (\<exists>x y. clamp E x (Fin 256) (Fin 2048) = Inr w \<and> clamp E y (Fin 256) (Fin 2048) = Inr h)"
  unfolding pickDims_def Let_def MIN_DIM_def MAX_DIM_def
  apply (rule pair_bind)
  apply (rule pair_bind)
  apply (rule pair_if)
   apply (rule pair_clamps)
  apply (rule pair_bind)
  apply (rule pair_clamps)
  done

subsection \<open>Evaluations in the example environment\<close>

lemma ex_301: "parseDim E0 (JNum (Fin (601 / 2))) = Inr (Some (Fin 304))"
  by code_simp

lemma ex_301_body:
  "resolveDims2 E0 (JObj [(''width'', JNum (Fin (601 / 2)))]) = Inr (Fin 304, Fin 304)"
  by code_simp

lemma ratio_0_5: "parseAspectRatio E0 (JStr ''0:5'') = None"
  by code_simp

lemma ratio_1: "parseAspectRatio E0 (JStr ''1'') = Some (Fin 1)"
  by code_simp

lemma ex_ratio_1:
  "pickDims E0 \<lparr>width = JUndefined, height = JUndefined, aspectRatio = JStr ''1'',
      longEdge = JNum (Fin 512)\<rparr> = Inr (Fin 512, Fin 512)"
  "resolveDims2 E0 (JObj [(''aspectRatio'', JStr ''1''), (''longEdge'', JNum (Fin 512))])
     = Inr (Fin 512, Fin 512)"
  by code_simp+

lemma bad_longEdge_field:
  "parseDim E0 (get_field body_bad_longEdge ''longEdge'') = Inl TypeError"
  by code_simp

lemma bad_longEdge_fetch2:
  "status (fst (fetch2 E0 env0 (req_body body_bad_longEdge))) = 500"
  "snd (fetch2 E0 env0 (req_body body_bad_longEdge)) = []"
  by code_simp+

lemma ex_tall:
  "pickDims E0 \<lparr>width = JUndefined, height = JUndefined, aspectRatio = JStr ''9:16'',
       longEdge = JStr ''tall''\<rparr> = Inr (Fin 1024, NaN)"
  by code_simp

section \<open>The claims about the aspect ratio\<close>

text \<open>
  Claim C5 (\<^verbatim>\<open>parseAspectRatio\<close>), as the code has it. For a string whose trimmed
  text contains \<^verbatim>\<open>:\<close> or \<^verbatim>\<open>/\<close>, let \<open>a\<close> be the text before the first delimiter
  and \<open>b\<close> the text between the first delimiter and the next one (or the end):
  the result is \<open>a / b\<close> when both parse as finite numbers above 0, and
  \<^verbatim>\<open>null\<close> otherwise; whatever follows a second delimiter is ignored. For a
  trimmed string without a delimiter the result is its number when that is finite
  and above 0, and \<^verbatim>\<open>null\<close> otherwise. A value that is not a string, and a string
  that is empty after trimming, give \<^verbatim>\<open>null\<close>. On \<^verbatim>\<open>null\<close> both resolvers go on with
  the ratio 1: \<^verbatim>\<open>pickDims\<close> and the block of the second variant do on an input
  whose aspect ratio gives \<^verbatim>\<open>null\<close> exactly what they do on the same input with an
  aspect ratio that parses to 1.
\<close>

theorem C5_parseAspectRatio:
  "(ar = JStr str \<and> trim str = a @ d # rest \<and> (\<forall>c \<in> set a. \<not> isDelim c) \<and> isDelim d \<longrightarrow>
      parseAspectRatio E ar =
        (if pos_finite (StringToNumber E a) \<and>
            pos_finite (StringToNumber E (takeWhile (\<lambda>c. \<not> isDelim c) rest))
         then Some (js_div E (StringToNumber E a)
                      (StringToNumber E (takeWhile (\<lambda>c. \<not> isDelim c) rest)))
         else None))
   \<and> (ar = JStr str \<and> trim str \<noteq> [] \<and> (\<forall>c \<in> set (trim str). \<not> isDelim c) \<longrightarrow>
      parseAspectRatio E ar =
        (if pos_finite (StringToNumber E (trim str))
         then Some (StringToNumber E (trim str)) else None))
   \<and> ((\<forall>s. ar \<noteq> JStr s) \<or> (ar = JStr str \<and> trim str = []) \<longrightarrow>
      parseAspectRatio E ar = None)
   \<and> (parseAspectRatio E ar = None \<and> parseAspectRatio E one = Some (Fin 1) \<longrightarrow>
      (aspectRatio args = ar \<longrightarrow>
         pickDims E args = pickDims E (args\<lparr>aspectRatio := one\<rparr>)) \<and>
      (get_field parsed ''aspectRatio'' = ar \<and> get_field other ''aspectRatio'' = one \<and>
       get_field other ''width'' = get_field parsed ''width'' \<and>
       get_field other ''height'' = get_field parsed ''height'' \<and>
       get_field other ''longEdge'' = get_field parsed ''longEdge'' \<longrightarrow>
         resolveDims2 E parsed = resolveDims2 E other))"
proof (intro conjI impI)
  assume "ar = JStr str \<and> trim str = a @ d # rest \<and> (\<forall>c \<in> set a. \<not> isDelim c) \<and> isDelim d"
  then show "parseAspectRatio E ar =
        (if pos_finite (StringToNumber E a) \<and>
            pos_finite (StringToNumber E (takeWhile (\<lambda>c. \<not> isDelim c) rest))
         then Some (js_div E (StringToNumber E a)
                      (StringToNumber E (takeWhile (\<lambda>c. \<not> isDelim c) rest)))
         else None)"
    using parseAspectRatio_split [of str a d rest E] by blast
next
  assume "ar = JStr str \<and> trim str \<noteq> [] \<and> (\<forall>c \<in> set (trim str). \<not> isDelim c)"
  then show "parseAspectRatio E ar =
        (if pos_finite (StringToNumber E (trim str))
         then Some (StringToNumber E (trim str)) else None)"
    using parseAspectRatio_plain [of str E] by blast
next
  assume "(\<forall>s. ar \<noteq> JStr s) \<or> (ar = JStr str \<and> trim str = [])"
  then show "parseAspectRatio E ar = None"
    by (intro parseAspectRatio_null) auto
next
  assume n: "parseAspectRatio E ar = None \<and> parseAspectRatio E one = Some (Fin 1)"
  assume "aspectRatio args = ar"
  with n show "pickDims E args = pickDims E (args\<lparr>aspectRatio := one\<rparr>)"
    using pickDims_ratio_fallback [of E args one] by blast
next
  assume n: "parseAspectRatio E ar = None \<and> parseAspectRatio E one = Some (Fin 1)"
  assume "get_field parsed ''aspectRatio'' = ar \<and> get_field other ''aspectRatio'' = one \<and>
       get_field other ''width'' = get_field parsed ''width'' \<and>
       get_field other ''height'' = get_field parsed ''height'' \<and>
       get_field other ''longEdge'' = get_field parsed ''longEdge''"
  with n show "resolveDims2 E parsed = resolveDims2 E other"
    using resolveDims2_ratio_fallback [of E parsed other] by blast
qed

text \<open>
  The cases occur: \<^verbatim>\<open>" 4/3 "\<close>, \<^verbatim>\<open>"0:5"\<close>, \<^verbatim>\<open>"1.5"\<close> and a value that is not a
  string; and with the long edge 512 the ratio \<^verbatim>\<open>"0:5"\<close> gives 512 by 512 in both
  variants, as the ratio \<^verbatim>\<open>"1"\<close> does.
\<close>

theorem C5_parseAspectRatio_witness:
  "parseAspectRatio E0 (JStr '' 4/3 '') = Some (Fin (4 / 3))
   \<and> parseAspectRatio E0 (JStr ''0:5'') = None
   \<and> parseAspectRatio E0 (JStr ''1.5'') = Some (Fin (3 / 2))
   \<and> parseAspectRatio E0 (JNum (Fin 2)) = None
   \<and> parseAspectRatio E0 (JStr ''1'') = Some (Fin 1)
   \<and> pickDims E0 \<lparr>width = JUndefined, height = JUndefined, aspectRatio = JStr ''0:5'',
        longEdge = JNum (Fin 512)\<rparr> = Inr (Fin 512, Fin 512)
   \<and> resolveDims2 E0 (JObj [(''aspectRatio'', JStr ''0:5''), (''longEdge'', JNum (Fin 512))])
        = Inr (Fin 512, Fin 512)"
proof -
  note t = C5_parseAspectRatio [where E = E0]
  have a: "parseAspectRatio E0 (JStr '' 4/3 '') = Some (Fin (4 / 3))"
    using t [of "JStr '' 4/3 ''" "'' 4/3 ''" "''4''" "CHR ''/''" "''3''"]
    by (simp add: trim_4_3 lit_3 lit_4 isDelim_def)
  have b: "parseAspectRatio E0 (JStr ''0:5'') = None"
    using t [of "JStr ''0:5''" "''0:5''" "''0''" "CHR '':''" "''5''"]
    by (simp add: trim_0_5 lit_0 lit_5 isDelim_def)
  have c: "parseAspectRatio E0 (JStr ''1.5'') = Some (Fin (3 / 2))"
    using t [of "JStr ''1.5''" "''1.5''"]
    by (simp add: trim_1_5 lit_1_5 isDelim_def)
  have d: "parseAspectRatio E0 (JNum (Fin 2)) = None"
    using t [of "JNum (Fin 2)"] by simp
  have e: "pickDims E0 \<lparr>width = JUndefined, height = JUndefined, aspectRatio = JStr ''0:5'',
        longEdge = JNum (Fin 512)\<rparr> = Inr (Fin 512, Fin 512)"
    using t [where ar = "JStr ''0:5''" and one = "JStr ''1''"
        and args = "\<lparr>width = JUndefined, height = JUndefined, aspectRatio = JStr ''0:5'',
          longEdge = JNum (Fin 512)\<rparr>"]
    by (simp add: ratio_0_5 ratio_1 ex_ratio_1)
  have f: "resolveDims2 E0 (JObj [(''aspectRatio'', JStr ''0:5''), (''longEdge'', JNum (Fin 512))])
        = Inr (Fin 512, Fin 512)"
    using t [where ar = "JStr ''0:5''" and one = "JStr ''1''"
        and parsed = "JObj [(''aspectRatio'', JStr ''0:5''), (''longEdge'', JNum (Fin 512))]"
        and other = "JObj [(''aspectRatio'', JStr ''1''), (''longEdge'', JNum (Fin 512))]"]
    by (simp add: ratio_0_5 ratio_1 ex_ratio_1)
  from a b c d e f ratio_1 show ?thesis by simp
qed

text \<open>
  Where the claim as written fails: \<^verbatim>\<open>"16:9:4"\<close> has two delimiters, so it is not
  of the form \<^verbatim>\<open>a:b\<close> with two numeric parts (neither \<^verbatim>\<open>"9:4"\<close> nor \<^verbatim>\<open>"16:9"\<close> is a
  number), and yet the result is 16 divided by 9, not \<^verbatim>\<open>null\<close>.
\<close>

theorem C5_parseAspectRatio_counterexample:
  "length (filter isDelim (trim ''16:9:4'')) = 2
   \<and> StringToNumber E0 ''9:4'' = NaN
   \<and> StringToNumber E0 ''16:9'' = NaN
   \<and> parseAspectRatio E0 (JStr ''16:9:4'') = Some (Fin (16 / 9))"
  by code_simp

text \<open>
  Claim C10 (more than one delimiter). When the trimmed string has at least two
  delimiters, \<^verbatim>\<open>parseAspectRatio\<close> looks at the first two pieces \<open>a\<close> and \<open>b\<close> only:
  it returns \<open>a / b\<close> when both are finite and above 0 (and \<^verbatim>\<open>null\<close> when one is
  not), whatever the rest of the string is.
\<close>

theorem C10_extra_delimiters:
  assumes "trim str = a @ d1 # b @ d2 # rest"
    and "\<forall>c \<in> set a. \<not> isDelim c" and "\<forall>c \<in> set b. \<not> isDelim c"
    and "isDelim d1" and "isDelim d2"
  shows "parseAspectRatio E (JStr str) =
     (if pos_finite (StringToNumber E a) \<and> pos_finite (StringToNumber E b)
      then Some (js_div E (StringToNumber E a) (StringToNumber E b)) else None)"
proof -
  have "takeWhile (\<lambda>c. \<not> isDelim c) (b @ d2 # rest) = b"
    using assms(3,5) by (simp add: takeWhile_tail)
  with parseAspectRatio_split [OF assms(1,2,4), of E] show ?thesis
    by simp
qed

text \<open>The example of the claim: \<^verbatim>\<open>"16:9:4"\<close> gives 16 divided by 9.\<close>

theorem C10_extra_delimiters_witness:
  "trim ''16:9:4'' = ''16'' @ CHR '':'' # ''9'' @ CHR '':'' # ''4''
   \<and> parseAspectRatio E0 (JStr ''16:9:4'') = Some (Fin (16 / 9))"
  using C10_extra_delimiters [of "''16:9:4''" "''16''" "CHR '':''" "''9''" "CHR '':''" "''4''" E0]
  by (simp add: trim_16_9_4 lit_16 lit_9 isDelim_def)

section \<open>The claims about the dimensions\<close>

text \<open>
  Claim C9 (alignment in the second variant). In an environment whose arithmetic
  is exact on the binary64 values above: whatever \<^verbatim>\<open>parseDim\<close> returns is a
  multiple of 8 within \<open>[256, 2048]\<close>, so never below the alignment unit 8; it
  does return a number for every defined input that converts to a finite number
  above 0; and whenever the block of the second variant returns a pair, both
  dimensions are multiples of 8 within \<open>[256, 2048]\<close>. The block returns a pair
  for every parsed body whose \<^verbatim>\<open>width\<close>, \<^verbatim>\<open>height\<close> and \<^verbatim>\<open>longEdge\<close> pass through
  \<^verbatim>\<open>parseDim\<close> without a throw, and \<^verbatim>\<open>parseDim\<close> throws only where the conversion
  of its argument to a number does.
\<close>

theorem C9_alignment:
  assumes "exact_on_dyadics E"
  shows "(parseDim E v = Inr (Some d) \<longrightarrow> aligned_dim d \<and> js_le (Fin 8) d)
   \<and> (v \<noteq> JUndefined \<and> v \<noteq> JNull \<and>
        (case v of JStr s \<Rightarrow> Inr (StringToNumber E (trim s)) | _ \<Rightarrow> ToNumber E v) = Inr n \<and>
        pos_finite n \<longrightarrow>
        (\<exists>d'. parseDim E v = Inr (Some d')))
   \<and> (resolveDims2 E parsed = Inr (w, h) \<longrightarrow> aligned_dim w \<and> aligned_dim h)
   \<and> (parseDim E (get_field parsed ''width'') = Inr pw \<and>
        parseDim E (get_field parsed ''height'') = Inr ph \<and>
        parseDim E (get_field parsed ''longEdge'') = Inr pl \<longrightarrow>
        (\<exists>w' h'. resolveDims2 E parsed = Inr (w', h')))
   \<and> (parseDim E v = Inl e \<longrightarrow> ToNumber E v = Inl e)"
proof (intro conjI impI)
  assume "parseDim E v = Inr (Some d)"
  then show "aligned_dim d" and "js_le (Fin 8) d"
    using parseDim_aligned [OF assms, of v d] js_le_8_aligned [of d] by blast+
next
  assume "v \<noteq> JUndefined \<and> v \<noteq> JNull \<and>
        (case v of JStr s \<Rightarrow> Inr (StringToNumber E (trim s)) | _ \<Rightarrow> ToNumber E v) = Inr n \<and>
        pos_finite n"
  then show "\<exists>d'. parseDim E v = Inr (Some d')"
    using parseDim_accepts [OF assms, of v n] by blast
next
  assume "resolveDims2 E parsed = Inr (w, h)"
  then show "aligned_dim w" and "aligned_dim h"
    using resolveDims2_aligned [OF assms, of parsed w h] by blast+
next
  assume "parseDim E (get_field parsed ''width'') = Inr pw \<and>
        parseDim E (get_field parsed ''height'') = Inr ph \<and>
        parseDim E (get_field parsed ''longEdge'') = Inr pl"
  then show "\<exists>w' h'. resolveDims2 E parsed = Inr (w', h')"
    using resolveDims2_returns [of E parsed pw ph pl] by blast
next
  assume "parseDim E v = Inl e"
  then show "ToNumber E v = Inl e"
    by (cases v; cases "ToNumber E v")
       (simp_all add: parseDim_def split: if_splits)
qed

text \<open>
  The example environment meets the hypothesis, and \<^verbatim>\<open>parseDim(300.5)\<close> is 304
  there.
\<close>

theorem C9_alignment_witness:
  "exact_on_dyadics E0
   \<and> parseDim E0 (JNum (Fin (601 / 2))) = Inr (Some (Fin 304))
   \<and> aligned_dim (Fin 304)
   \<and> resolveDims2 E0 (JObj [(''width'', JNum (Fin (601 / 2)))]) = Inr (Fin 304, Fin 304)"
  using C9_alignment [OF exact_E0, of "JNum (Fin (601 / 2))" "Fin 304" "Fin (601 / 2)"
    "JObj [(''width'', JNum (Fin (601 / 2)))]" "Fin 304" "Fin 304"] exact_E0 ex_301 ex_301_body
  by simp

text \<open>
  Claim C6 (both dimensions given). When \<^verbatim>\<open>width\<close> and \<^verbatim>\<open>height\<close> are integers
  above 0, \<^verbatim>\<open>pickDims\<close> returns each clamped to \<open>[256, 2048]\<close>, whatever
  \<^verbatim>\<open>aspectRatio\<close> and \<^verbatim>\<open>longEdge\<close> are. The second variant converts \<^verbatim>\<open>longEdge\<close> on
  line 168, before it looks at the two dimensions: when that conversion returns,
  the result is each dimension clamped and then aligned to 8, and when it throws,
  the block throws and no pair is produced. A value already within \<open>[256, 2048]\<close>
  is returned unchanged by the first variant and rounded to the nearest multiple
  of 8 by the second.
\<close>

theorem C6_explicit_pair:
  assumes "0 < a" and "0 < b"
  shows
  "(width args = JNum (Fin (of_int a)) \<and> height args = JNum (Fin (of_int b)) \<longrightarrow>
      pickDims E args = Inr (Fin (of_int (spec_clamp a)), Fin (of_int (spec_clamp b))) \<and>
      pickDims E (args\<lparr>aspectRatio := r, longEdge := l\<rparr>) = pickDims E args)
   \<and> (exact_on_dyadics E \<and> get_field parsed ''width'' = JNum (Fin (of_int a)) \<and>
        get_field parsed ''height'' = JNum (Fin (of_int b)) \<longrightarrow>
      resolveDims2 E parsed =
        (case parseDim E (get_field parsed ''longEdge'') of
           Inl e \<Rightarrow> Inl e
         | Inr lp \<Rightarrow> Inr (Fin (of_int (spec_align8 (spec_clamp a))),
                         Fin (of_int (spec_align8 (spec_clamp b))))))
   \<and> (256 \<le> a \<and> a \<le> 2048 \<longrightarrow> spec_clamp a = a \<and> spec_align8 (spec_clamp a) = 8 * ((a + 4) div 8))"
proof (intro conjI impI)
  assume wh: "width args = JNum (Fin (of_int a)) \<and> height args = JNum (Fin (of_int b))"
  then show e: "pickDims E args =
      Inr (Fin (of_int (spec_clamp a)), Fin (of_int (spec_clamp b)))"
    using pickDims_explicit [OF assms, of args E] by blast
  from wh show "pickDims E (args\<lparr>aspectRatio := r, longEdge := l\<rparr>) = pickDims E args"
    using pickDims_explicit [OF assms, of "args\<lparr>aspectRatio := r, longEdge := l\<rparr>" E] e by simp
next
  assume h: "exact_on_dyadics E \<and> get_field parsed ''width'' = JNum (Fin (of_int a)) \<and>
        get_field parsed ''height'' = JNum (Fin (of_int b))"
  then show "resolveDims2 E parsed =
        (case parseDim E (get_field parsed ''longEdge'') of
           Inl e \<Rightarrow> Inl e
         | Inr lp \<Rightarrow> Inr (Fin (of_int (spec_align8 (spec_clamp a))),
                         Fin (of_int (spec_align8 (spec_clamp b)))))"
    using resolveDims2_explicit [OF _ assms, of E parsed] by (simp add: and_then_def)
next
  assume r: "256 \<le> a \<and> a \<le> 2048"
  then show "spec_clamp a = a" by (simp add: spec_clamp_def)
  with r show "spec_align8 (spec_clamp a) = 8 * ((a + 4) div 8)"
    using spec_align8_range [of a] by simp
qed

text \<open>
  The body \<^verbatim>\<open>{"prompt":"x","width":1920,"height":1080,"longEdge":{"toString":1}}\<close>
  has both dimensions, and a \<^verbatim>\<open>longEdge\<close> whose conversion throws. The first
  variant returns 1920 by 1080. The second variant throws on line 168; its
  handler answers 500 and calls no backend. With the long edge 512 instead, both
  variants return 1920 by 1080 (Example 1 of the specification), and the first
  variant clamps 5000 by 100 to 2048 by 256.
\<close>

theorem C6_explicit_pair_witness:
  "pickDims E0 (sizing_args body_bad_longEdge) = Inr (Fin 1920, Fin 1080)
   \<and> exact_on_dyadics E0
   \<and> parseDim E0 (get_field body_bad_longEdge ''longEdge'') = Inl TypeError
   \<and> resolveDims2 E0 body_bad_longEdge = Inl TypeError
   \<and> status (fst (fetch2 E0 env0 (req_body body_bad_longEdge))) = 500
   \<and> snd (fetch2 E0 env0 (req_body body_bad_longEdge)) = []
   \<and> resolveDims2 E0 (JObj [(''width'', JNum (Fin 1920)), (''height'', JNum (Fin 1080)),
        (''aspectRatio'', JStr ''1:1''), (''longEdge'', JNum (Fin 512))])
        = Inr (Fin 1920, Fin 1080)
   \<and> pickDims E0 \<lparr>width = JNum (Fin 5000), height = JNum (Fin 100),
      aspectRatio = JUndefined, longEdge = JUndefined\<rparr> = Inr (Fin 2048, Fin 256)"
proof -
  note t = C6_explicit_pair [where E = E0]
  have a: "pickDims E0 (sizing_args body_bad_longEdge) = Inr (Fin 1920, Fin 1080)"
    using t [of 1920 1080 "sizing_args body_bad_longEdge"]
    by (simp add: sizing_args_def body_bad_longEdge_def spec_clamp_def)
  have b: "resolveDims2 E0 body_bad_longEdge = Inl TypeError"
    using t [of 1920 1080 _ _ _ body_bad_longEdge] exact_E0 bad_longEdge_field
    by (simp add: body_bad_longEdge_def)
  have p: "parseDim E0 (JNum (Fin 512)) = Inr (Some (Fin 512))"
    using parseDim_aligned_int [OF exact_E0, of 512] by simp
  have c: "resolveDims2 E0 (JObj [(''width'', JNum (Fin 1920)), (''height'', JNum (Fin 1080)),
        (''aspectRatio'', JStr ''1:1''), (''longEdge'', JNum (Fin 512))])
        = Inr (Fin 1920, Fin 1080)"
    using t [of 1920 1080 _ _ _ "JObj [(''width'', JNum (Fin 1920)),
        (''height'', JNum (Fin 1080)), (''aspectRatio'', JStr ''1:1''),
        (''longEdge'', JNum (Fin 512))]"] exact_E0
    by (simp add: p spec_clamp_def spec_align8_alt)
  have d: "pickDims E0 \<lparr>width = JNum (Fin 5000), height = JNum (Fin 100),
      aspectRatio = JUndefined, longEdge = JUndefined\<rparr> = Inr (Fin 2048, Fin 256)"
    using t [of 5000 100 "\<lparr>width = JNum (Fin 5000), height = JNum (Fin 100),
      aspectRatio = JUndefined, longEdge = JUndefined\<rparr>"]
    by (simp add: spec_clamp_def)
  from a b c d exact_E0 bad_longEdge_field bad_longEdge_fetch2 show ?thesis by simp
qed

text \<open>
  Claim C7 (neither dimension given), as the code has it. First variant: when
  \<^verbatim>\<open>Number(width)\<close> and \<^verbatim>\<open>Number(height)\<close> return and neither is an integer above
  0, then with \<open>L\<close> the \<^verbatim>\<open>longEdge\<close> field (1024 when it is absent), \<open>l\<close> its
  conversion to a number and \<open>r\<close> the parsed ratio (1 when there is none), the
  result is \<open>(L, round(l / r))\<close> for \<open>r \<ge> 1\<close> and \<open>(round(l * r), L)\<close> otherwise,
  each replaced by 1024 when falsy and then clamped; when the conversion of \<open>L\<close>
  throws, so does \<^verbatim>\<open>pickDims\<close>. Second variant: a width or height counts as given
  as soon as \<^verbatim>\<open>parseDim\<close> accepts it (any finite number above 0, integer or not);
  when it accepts neither and the \<^verbatim>\<open>longEdge\<close> field passes through \<^verbatim>\<open>parseDim\<close>
  without a throw, \<open>L\<close> is what \<^verbatim>\<open>parseDim\<close> made of that field (so already clamped
  and aligned; 1024 when it is rejected), and the other side is \<^verbatim>\<open>parseDim\<close> of
  \<open>round(L / r)\<close> or of \<open>round(L * r)\<close>, or 1024. In both variants
  \<^verbatim>\<open>{aspectRatio: "16:9", longEdge: 1920}\<close> gives 1920 by 1080 and
  \<^verbatim>\<open>{aspectRatio: "16:9"}\<close> gives 1024 by 576, in every environment that reads
  \<^verbatim>\<open>"16"\<close> and \<^verbatim>\<open>"9"\<close> as 16 and 9 and rounds as binary64 does.
\<close>

theorem C7_long_edge:
  "(ToNumber E (width args) = Inr w \<and> \<not> (isInteger w \<and> js_gt w (Fin 0)) \<and>
    ToNumber E (height args) = Inr h \<and> \<not> (isInteger h \<and> js_gt h (Fin 0)) \<and>
    L = (if longEdge args = JUndefined then JNum (Fin 1024) else longEdge args) \<and>
    r = or_default (parseAspectRatio E (aspectRatio args)) (Fin 1) \<longrightarrow>
      pickDims E args =
        (case ToNumber E L of
           Inl e \<Rightarrow> Inl e
         | Inr l \<Rightarrow>
             Inr (if js_ge r (Fin 1) then
                    (Math_min (Fin 2048) (Math_max (Fin 256) (if truthy L then l else Fin 1024)),
                     Math_min (Fin 2048) (Math_max (Fin 256)
                       (or_default (Some (Math_round (js_div E l r))) (Fin 1024))))
                  else
                    (Math_min (Fin 2048) (Math_max (Fin 256)
                       (or_default (Some (Math_round (js_mul E l r))) (Fin 1024))),
                     Math_min (Fin 2048) (Math_max (Fin 256)
                       (if truthy L then l else Fin 1024))))))
   \<and> (exact_on_dyadics E \<and>
       parseDim E (get_field parsed ''width'') = Inr None \<and>
       parseDim E (get_field parsed ''height'') = Inr None \<and>
       parseDim E (get_field parsed ''longEdge'') = Inr lp \<and>
       L2 = nullish lp (Fin 1024) \<and>
       r2 = nullish (parseAspectRatio E (get_field parsed ''aspectRatio'')) (Fin 1) \<longrightarrow>
      (\<exists>other.
         parseDim E (JNum (if js_ge r2 (Fin 1) then Math_round (js_div E L2 r2)
                           else Math_round (js_mul E L2 r2))) = Inr other \<and>
         resolveDims2 E parsed =
           Inr (if js_ge r2 (Fin 1) then (L2, or_default other (Fin 1024))
                else (or_default other (Fin 1024), L2))))
   \<and> (accurate64 E \<and> StringToNumber E ''16'' = Fin 16 \<and> StringToNumber E ''9'' = Fin 9 \<longrightarrow>
      pickDims E (args_16_9 (JNum (Fin 1920))) = Inr (Fin 1920, Fin 1080) \<and>
      pickDims E (args_16_9 JUndefined) = Inr (Fin 1024, Fin 576) \<and>
      (exact_on_dyadics E \<longrightarrow>
         resolveDims2 E body_16_9_1920 = Inr (Fin 1920, Fin 1080) \<and>
         resolveDims2 E body_16_9 = Inr (Fin 1024, Fin 576)))"
proof (intro conjI impI)
  assume "ToNumber E (width args) = Inr w \<and> \<not> (isInteger w \<and> js_gt w (Fin 0)) \<and>
    ToNumber E (height args) = Inr h \<and> \<not> (isInteger h \<and> js_gt h (Fin 0)) \<and>
    L = (if longEdge args = JUndefined then JNum (Fin 1024) else longEdge args) \<and>
    r = or_default (parseAspectRatio E (aspectRatio args)) (Fin 1)"
  then have "pickDims E args =
     and_then (ToNumber E L) (\<lambda>l.
       Inr (if js_ge r (Fin 1) then
              (Math_min (Fin 2048) (Math_max (Fin 256) (if truthy L then l else Fin 1024)),
               Math_min (Fin 2048) (Math_max (Fin 256)
                 (or_default (Some (Math_round (js_div E l r))) (Fin 1024))))
            else
              (Math_min (Fin 2048) (Math_max (Fin 256)
                 (or_default (Some (Math_round (js_mul E l r))) (Fin 1024))),
               Math_min (Fin 2048) (Math_max (Fin 256) (if truthy L then l else Fin 1024)))))"
    using pickDims_longEdge [of E args w h L r] by blast
  then show "pickDims E args =
        (case ToNumber E L of
           Inl e \<Rightarrow> Inl e
         | Inr l \<Rightarrow>
             Inr (if js_ge r (Fin 1) then
                    (Math_min (Fin 2048) (Math_max (Fin 256) (if truthy L then l else Fin 1024)),
                     Math_min (Fin 2048) (Math_max (Fin 256)
                       (or_default (Some (Math_round (js_div E l r))) (Fin 1024))))
                  else
                    (Math_min (Fin 2048) (Math_max (Fin 256)
                       (or_default (Some (Math_round (js_mul E l r))) (Fin 1024))),
                     Math_min (Fin 2048) (Math_max (Fin 256)
                       (if truthy L then l else Fin 1024)))))"
    by (simp only: and_then_def)
next
  assume a: "exact_on_dyadics E \<and>
       parseDim E (get_field parsed ''width'') = Inr None \<and>
       parseDim E (get_field parsed ''height'') = Inr None \<and>
       parseDim E (get_field parsed ''longEdge'') = Inr lp \<and>
       L2 = nullish lp (Fin 1024) \<and>
       r2 = nullish (parseAspectRatio E (get_field parsed ''aspectRatio'')) (Fin 1)"
  show "\<exists>other.
         parseDim E (JNum (if js_ge r2 (Fin 1) then Math_round (js_div E L2 r2)
                           else Math_round (js_mul E L2 r2))) = Inr other \<and>
         resolveDims2 E parsed =
           Inr (if js_ge r2 (Fin 1) then (L2, or_default other (Fin 1024))
                else (or_default other (Fin 1024), L2))"
    using resolveDims2_longEdge [of E parsed lp L2 r2] a
    by (cases "js_ge r2 (Fin 1)") (simp_all del: js_div.simps js_mul.simps)
next
  assume a: "accurate64 E \<and> StringToNumber E ''16'' = Fin 16 \<and> StringToNumber E ''9'' = Fin 9"
  then show "pickDims E (args_16_9 (JNum (Fin 1920))) = Inr (Fin 1920, Fin 1080)"
    and "pickDims E (args_16_9 JUndefined) = Inr (Fin 1024, Fin 576)"
    using examples1 [of E] by blast+
  assume "exact_on_dyadics E"
  with a show "resolveDims2 E body_16_9_1920 = Inr (Fin 1920, Fin 1080)"
    and "resolveDims2 E body_16_9 = Inr (Fin 1024, Fin 576)"
    using examples2 [of E] by blast+
qed

text \<open>
  The hypotheses hold in the example environment, at the inputs of Example 3.
\<close>

theorem C7_long_edge_witness:
  "accurate64 E0 \<and> exact_on_dyadics E0
   \<and> ToNumber E0 (width (args_16_9 (JNum (Fin 1920)))) = Inr NaN
   \<and> ToNumber E0 (height (args_16_9 (JNum (Fin 1920)))) = Inr NaN
   \<and> parseDim E0 (get_field body_16_9_1920 ''width'') = Inr None
   \<and> parseDim E0 (get_field body_16_9_1920 ''height'') = Inr None
   \<and> pickDims E0 (args_16_9 (JNum (Fin 1920))) = Inr (Fin 1920, Fin 1080)
   \<and> pickDims E0 (args_16_9 JUndefined) = Inr (Fin 1024, Fin 576)
   \<and> resolveDims2 E0 body_16_9_1920 = Inr (Fin 1920, Fin 1080)
   \<and> resolveDims2 E0 body_16_9 = Inr (Fin 1024, Fin 576)"
  using C7_long_edge [of E0 "args_16_9 (JNum (Fin 1920))" NaN NaN "JNum (Fin 1920)"
      "or_default (parseAspectRatio E0 (JStr ''16:9'')) (Fin 1)" body_16_9_1920
      "Some (Fin 1920)" "Fin 1920"
      "nullish (parseAspectRatio E0 (JStr ''16:9'')) (Fin 1)"]
    accurate_E0 exact_E0 lit_16 lit_9
  by (simp add: args_16_9_def body_16_9_1920_def)

text \<open>
  Where the claim as written fails, both times in the second variant. A width
  of 300.5 is not an integer, and yet the result 304 by 304 comes from it, not
  from the long edge. A long edge of 5000 with the ratio 2 gives 2048 by 1024:
  the height comes from the clamped 2048, while \<open>round(5000 / 2)\<close> clamps to 2048.
\<close>

theorem C7_long_edge_counterexample:
  "\<not> isInteger (Fin (601 / 2))
   \<and> resolveDims2 E0 (JObj [(''prompt'', JStr ''x''), (''width'', JNum (Fin (601 / 2)))])
       = Inr (Fin 304, Fin 304)
   \<and> resolveDims2 E0 (JObj [(''prompt'', JStr ''x''), (''aspectRatio'', JStr ''2''),
        (''longEdge'', JNum (Fin 5000))]) = Inr (Fin 2048, Fin 1024)
   \<and> clamp E0 (JNum (Math_round (js_div E0 (Fin 5000) (Fin 2)))) (Fin 256) (Fin 2048)
       = Inr (Fin 2048)"
  by code_simp

text \<open>
  Claim C8 (fallback to 1024), at a \<^verbatim>\<open>longEdge\<close> that is a non-empty string and not
  a number, the example the claim names. The first variant tests \<^verbatim>\<open>w || DEFAULT_W\<close>
  (line 53): the string is truthy, so it is kept, and clamping it gives \<open>NaN\<close> for
  the width instead of 1024. The second variant, which sends \<^verbatim>\<open>longEdge\<close> through
  \<^verbatim>\<open>parseDim\<close> first, returns 1024 by 1024 as the claim says.
\<close>

theorem C8_fallback_string:
  "(StringToNumber E s = NaN \<and> s \<noteq> [] \<longrightarrow>
      pickDims E \<lparr>width = JUndefined, height = JUndefined, aspectRatio = JUndefined,
                  longEdge = JStr s\<rparr> = Inr (NaN, Fin 1024))
   \<and> (StringToNumber E (trim s) = NaN \<and> exact_on_dyadics E \<longrightarrow>
      resolveDims2 E (JObj [(''prompt'', JStr ''x''), (''longEdge'', JStr s)])
        = Inr (Fin 1024, Fin 1024))"
proof (intro conjI impI)
  assume a: "StringToNumber E s = NaN \<and> s \<noteq> []"
  have "parseAspectRatio E JUndefined = None" by (simp add: parseAspectRatio_def)
  with a show "pickDims E \<lparr>width = JUndefined, height = JUndefined, aspectRatio = JUndefined,
                  longEdge = JStr s\<rparr> = Inr (NaN, Fin 1024)"
    by (simp add: pickDims_def Let_def isInteger_def or_default_def num_truthy_def js_ge_def
          js_le_def Math_round_def js_or_def clamp_def Math_max_def Math_min_def
          MIN_DIM_def MAX_DIM_def DEFAULT_W_def DEFAULT_H_def)
next
  assume a: "StringToNumber E (trim s) = NaN \<and> exact_on_dyadics E"
  then have e: "exact_on_dyadics E" by simp
  have n: "parseDim E (JStr s) = Inr None" using a by (simp add: parseDim_def isFinite_def)
  have p: "parseDim E (JNum (Fin 1024)) = Inr (Some (Fin 1024))"
    using parseDim_aligned_int [OF e, of 1024] by simp
  have d: "js_div E (Fin 1024) (Fin 1) = Fin 1024"
    using exact_int [OF e, of 1024] by simp
  have r: "parseAspectRatio E JUndefined = None" by (simp add: parseAspectRatio_def)
  show "resolveDims2 E (JObj [(''prompt'', JStr ''x''), (''longEdge'', JStr s)])
        = Inr (Fin 1024, Fin 1024)"
    using resolveDims2_longEdge [OF e, of "JObj [(''prompt'', JStr ''x''), (''longEdge'', JStr s)]"
        None, OF _ _ _ refl refl]
    by (simp add: n p r nullish_def js_ge_def js_le_def or_default_def num_truthy_def d
          Math_round_of_int [of 1024, simplified] del: js_div.simps)
qed

text \<open>The string \<^verbatim>\<open>"abc"\<close> is such a long edge.\<close>

theorem C8_fallback_string_witness:
  "StringToNumber E0 ''abc'' = NaN \<and> exact_on_dyadics E0
   \<and> pickDims E0 \<lparr>width = JUndefined, height = JUndefined, aspectRatio = JUndefined,
                  longEdge = JStr ''abc''\<rparr> = Inr (NaN, Fin 1024)
   \<and> resolveDims2 E0 (JObj [(''prompt'', JStr ''x''), (''longEdge'', JStr ''abc'')])
        = Inr (Fin 1024, Fin 1024)"
  using C8_fallback_string [of E0 "''abc''"] exact_E0
  by (simp add: lit_abc trim_abc)

text \<open>
  Claim C1 (every input gives a pair of integers within \<open>[256, 2048]\<close>, and no
  error is raised), at inputs where it does not hold. In \<^verbatim>\<open>pickDims\<close>: with the
  portrait ratio \<^verbatim>\<open>"9:16"\<close> and the long edge \<^verbatim>\<open>"tall"\<close> the height is \<open>NaN\<close>; with
  the long edge 500.5 the width is 500.5; and with the width \<^verbatim>\<open>{"toString":1}\<close>
  the conversion on line 26 throws a \<^verbatim>\<open>TypeError\<close>. In the second variant every pair that is
  returned is within the range (the theorem of C9), but the block throws where
  a sizing field cannot be converted, as at the long edge \<^verbatim>\<open>{"toString":1}\<close>.
\<close>

theorem C1_out_of_range:
  "pickDims E0 \<lparr>width = JUndefined, height = JUndefined, aspectRatio = JStr ''9:16'',
       longEdge = JStr ''tall''\<rparr> = Inr (Fin 1024, NaN)
   \<and> \<not> spec_dim_ok NaN
   \<and> pickDims E0 \<lparr>width = JUndefined, height = JUndefined, aspectRatio = JUndefined,
       longEdge = JNum (Fin (1001 / 2))\<rparr> = Inr (Fin (1001 / 2), Fin 501)
   \<and> \<not> spec_dim_ok (Fin (1001 / 2))
   \<and> pickDims E0 (sizing_args body_bad_width) = Inl TypeError
   \<and> resolveDims2 E0 body_bad_longEdge = Inl TypeError"
  by code_simp

text \<open>
  What the first variant does guarantee, for every input: each dimension that
  \<^verbatim>\<open>pickDims\<close> returns is \<open>NaN\<close> or lies within \<open>[256, 2048]\<close>. The final clamp can
  be escaped by \<open>NaN\<close> only.
\<close>

theorem pickDims_range_or_NaN:
  "pickDims E args = Inr (w, h) \<longrightarrow>
     (w = NaN \<or> (js_le (Fin 256) w \<and> js_le w (Fin 2048)))
   \<and> (h = NaN \<or> (js_le (Fin 256) h \<and> js_le h (Fin 2048)))"
proof
  assume "pickDims E args = Inr (w, h)"
  with pickDims_clamped [of E args] obtain x y where
    "clamp E x (Fin 256) (Fin 2048) = Inr w" "clamp E y (Fin 256) (Fin 2048) = Inr h"
    by blast
  then show "(w = NaN \<or> (js_le (Fin 256) w \<and> js_le w (Fin 2048)))
   \<and> (h = NaN \<or> (js_le (Fin 256) h \<and> js_le h (Fin 2048)))"
    using clamp_range_or_NaN [of E x w] clamp_range_or_NaN [of E y h] by simp
qed

text \<open>
  With the ratio \<^verbatim>\<open>"9:16"\<close> and the long edge \<^verbatim>\<open>"tall"\<close> the width is 1024 and the
  height is \<open>NaN\<close>.
\<close>

theorem pickDims_range_or_NaN_witness:
  "pickDims E0 \<lparr>width = JUndefined, height = JUndefined, aspectRatio = JStr ''9:16'',
       longEdge = JStr ''tall''\<rparr> = Inr (Fin 1024, NaN)
   \<and> js_le (Fin 256) (Fin 1024) \<and> js_le (Fin 1024) (Fin 2048)"
  using pickDims_range_or_NaN [of E0 "\<lparr>width = JUndefined, height = JUndefined,
       aspectRatio = JStr ''9:16'', longEdge = JStr ''tall''\<rparr>" "Fin 1024" NaN] ex_tall
  by simp

end
